theory Spec2Isabelle
  imports Main "HOL-Library.Sublist"
begin

section \<open>Python values and exceptions\<close>

text \<open>
  The server (\<^verbatim>\<open>server.py\<close>) moves three kinds of Python objects around: the column
  values that \<^verbatim>\<open>sqlite3\<close> hands back, the objects that \<^verbatim>\<open>json.loads\<close> builds, and the
  strings it formats. One datatype holds them all. A \<^verbatim>\<open>dict\<close> is an association list in
  iteration order (its keys are distinct; the functions below read the first entry of a key,
  so no theorem needs that). A \<^verbatim>\<open>float\<close> is held as the text \<^verbatim>\<open>repr\<close> gives for it: the program
  never computes with a float, it only formats it, and \<^verbatim>\<open>repr\<close> is injective on floats.
  \<^verbatim>\<open>bytes\<close> values (a BLOB column) are not modelled: the catalogue's columns are INTEGER
  and TEXT.
\<close>

datatype pyval =
    PNone
  | PBool bool
  | PInt int
  | PFloat string
  | PStr string
  | PList "pyval list"
  | PDict "(string \<times> pyval) list"

text \<open>
  The exceptions the modelled code can meet. The last three carry no detail: they stand
  for whatever the JSON decoder, the store and the network raise. All are subclasses of
  \<^verbatim>\<open>Exception\<close>; \<^verbatim>\<open>KeyboardInterrupt\<close> and \<^verbatim>\<open>SystemExit\<close>, which \<^verbatim>\<open>except Exception\<close>
  lets through, are not modelled.
\<close>

datatype exn =
    TypeError
  | KeyError
  | IndexError
  | AttributeError
  | ValueError
  | JSONDecodeError
  | DatabaseError
  | URLError

text \<open>\<^verbatim>\<open>sep.join(xs)\<close> on a list of strings.\<close>

fun join :: "string \<Rightarrow> string list \<Rightarrow> string" where
  "join sep [] = []"
| "join sep [x] = x"
| "join sep (x # y # ys) = x @ sep @ join sep (y # ys)"

section \<open>The filter record and its compilation\<close>

text \<open>
  \<^verbatim>\<open>class SearchQuery(BaseModel)\<close>: \<^verbatim>\<open>category_id\<close> is mandatory, the other six fields
  default to \<^verbatim>\<open>None\<close>.
\<close>

record SearchQuery =
  category_id :: int
  manufacturer_id :: "int option"
  manufacturer_pn :: "string option"
  description :: "string option"
  package :: "string option"
  is_basic_parts :: "bool option"
  is_preferred_parts :: "bool option"

text \<open>
  \<^verbatim>\<open>search_parts\<close> grows two lists side by side, \<^verbatim>\<open>where_clauses\<close> and \<^verbatim>\<open>params\<close>.
  Each definition below is one \<^verbatim>\<open>if\<close> of the source acting on that pair.
  \<^verbatim>\<open>if search_query.manufacturer_pn:\<close> is a truth test: it fails on \<^verbatim>\<open>None\<close> and on the
  empty string alike, whereas \<^verbatim>\<open>is not None\<close> fails on \<^verbatim>\<open>None\<close> only.
\<close>

type_synonym builder = "string list \<times> pyval list"

definition str_truthy :: "string option \<Rightarrow> bool" where
  "str_truthy v = (case v of None \<Rightarrow> False | Some s \<Rightarrow> s \<noteq> [])"

definition init_builder :: "SearchQuery \<Rightarrow> builder" where
  "init_builder sq = ([] @ [''category_id=?''], [] @ [PInt (category_id sq)])"

definition add_manufacturer_id :: "SearchQuery \<Rightarrow> builder \<Rightarrow> builder" where
  "add_manufacturer_id sq b =
     (case manufacturer_id sq of
        Some m \<Rightarrow> (fst b @ [''manufacturer_id=?''], snd b @ [PInt m])
      | None \<Rightarrow> b)"

definition add_manufacturer_pn :: "SearchQuery \<Rightarrow> builder \<Rightarrow> builder" where
  "add_manufacturer_pn sq b =
     (if str_truthy (manufacturer_pn sq)
      then (fst b @ [''mfr LIKE ?''], snd b @ [PStr (the (manufacturer_pn sq))])
      else b)"

definition add_description :: "SearchQuery \<Rightarrow> builder \<Rightarrow> builder" where
  "add_description sq b =
     (if str_truthy (description sq)
      then (fst b @ [''description LIKE ?''], snd b @ [PStr (the (description sq))])
      else b)"

definition add_package :: "SearchQuery \<Rightarrow> builder \<Rightarrow> builder" where
  "add_package sq b =
     (if str_truthy (package sq)
      then (fst b @ [''package=?''], snd b @ [PStr (the (package sq))])
      else b)"

definition add_is_basic_parts :: "SearchQuery \<Rightarrow> builder \<Rightarrow> builder" where
  "add_is_basic_parts sq b =
     (case is_basic_parts sq of
        Some v \<Rightarrow> (fst b @ [''basic='' @ (if v = True then ''1'' else ''0'')], snd b)
      | None \<Rightarrow> b)"

definition add_is_preferred_parts :: "SearchQuery \<Rightarrow> builder \<Rightarrow> builder" where
  "add_is_preferred_parts sq b =
     (case is_preferred_parts sq of
        Some v \<Rightarrow> (fst b @ [''preferred='' @ (if v = True then ''1'' else ''0'')], snd b)
      | None \<Rightarrow> b)"

definition compile_filter :: "SearchQuery \<Rightarrow> builder" where
  "compile_filter sq =
     add_is_preferred_parts sq (add_is_basic_parts sq (add_package sq
       (add_description sq (add_manufacturer_pn sq (add_manufacturer_id sq
         (init_builder sq))))))"

definition where_clauses :: "SearchQuery \<Rightarrow> string list" where
  "where_clauses sq = fst (compile_filter sq)"

definition params :: "SearchQuery \<Rightarrow> pyval list" where
  "params sq = snd (compile_filter sq)"

definition select_prefix :: string where
  "select_prefix = ''SELECT lcsc,category_id,manufacturer_id,mfr,basic,preferred,description,package,stock,price,extra FROM components WHERE ''"

text \<open>\<^verbatim>\<open>query += ' AND '.join(where_clauses)\<close>: the text handed to the store.\<close>

definition where_text :: "SearchQuery \<Rightarrow> string" where
  "where_text sq = join '' AND '' (where_clauses sq)"

definition query_text :: "SearchQuery \<Rightarrow> string" where
  "query_text sq = select_prefix @ where_text sq"

section \<open>What the standard library does to values\<close>

text \<open>
  The library functions the server calls and that are not its own code are parameters of
  the model: the JSON decoder on a \<^verbatim>\<open>str\<close>, \<^verbatim>\<open>repr\<close> on a \<^verbatim>\<open>str\<close> (needed only to
  format a list or dict), \<^verbatim>\<open>urllib.parse.urlparse(u).path\<close> and
  \<^verbatim>\<open>urllib.request.urlopen(u).read()\<close> on a \<^verbatim>\<open>str\<close>. Every theorem holds for whatever
  these are.
\<close>

record stdlib =
  json_decode :: "string \<Rightarrow> exn + pyval"
  repr_str :: "string \<Rightarrow> string"
  urlparse_path :: "string \<Rightarrow> exn + string"
  urlopen_read :: "string \<Rightarrow> exn + string"

text \<open>Sequencing of steps that may raise: the first exception ends the block.\<close>

definition bind_exn :: "exn + 'a \<Rightarrow> ('a \<Rightarrow> exn + 'b) \<Rightarrow> exn + 'b" where
  "bind_exn m f = (case m of Inl e \<Rightarrow> Inl e | Inr v \<Rightarrow> f v)"

text \<open>\<^verbatim>\<open>str(n)\<close> for an integer.\<close>

fun digits :: "nat \<Rightarrow> string" where
  "digits n = (if n < 10 then [''0123456789'' ! n] else digits (n div 10) @ [''0123456789'' ! (n mod 10)])"

declare digits.simps [simp del]

definition str_int :: "int \<Rightarrow> string" where
  "str_int i = (if i < 0 then ''-'' @ digits (nat (- i)) else digits (nat i))"

text \<open>
  \<^verbatim>\<open>repr(v)\<close> and \<^verbatim>\<open>str(v)\<close>; an f-string field \<^verbatim>\<open>{v}\<close> is \<^verbatim>\<open>str(v)\<close>. They differ on a
  \<^verbatim>\<open>str\<close> only.
\<close>

fun py_repr :: "stdlib \<Rightarrow> pyval \<Rightarrow> string" where
  "py_repr lib PNone = ''None''"
| "py_repr lib (PBool b) = (if b then ''True'' else ''False'')"
| "py_repr lib (PInt i) = str_int i"
| "py_repr lib (PFloat r) = r"
| "py_repr lib (PStr s) = repr_str lib s"
| "py_repr lib (PList xs) = ''['' @ join '', '' (map (py_repr lib) xs) @ '']''"
| "py_repr lib (PDict kvs) =
     ''{'' @ join '', '' (map (\<lambda>kv. repr_str lib (fst kv) @ '': '' @ py_repr lib (snd kv)) kvs) @ ''}''"

definition py_str :: "stdlib \<Rightarrow> pyval \<Rightarrow> string" where
  "py_str lib v = (case v of PStr s \<Rightarrow> s | _ \<Rightarrow> py_repr lib v)"

text \<open>The truth value of an object, as \<^verbatim>\<open>if x:\<close> takes it.\<close>

definition py_truthy :: "pyval \<Rightarrow> bool" where
  "py_truthy v =
     (case v of
        PNone \<Rightarrow> False
      | PBool b \<Rightarrow> b
      | PInt i \<Rightarrow> i \<noteq> 0
      | PFloat r \<Rightarrow> r \<noteq> ''0.0'' \<and> r \<noteq> ''-0.0''
      | PStr s \<Rightarrow> s \<noteq> []
      | PList xs \<Rightarrow> xs \<noteq> []
      | PDict kvs \<Rightarrow> kvs \<noteq> [])"

text \<open>
  \<^verbatim>\<open>json.loads(x)\<close>: only a \<^verbatim>\<open>str\<close> reaches the decoder; \<^verbatim>\<open>None\<close> (a NULL column) and
  every other object raise \<^verbatim>\<open>TypeError\<close>.
\<close>

definition json_loads :: "stdlib \<Rightarrow> pyval \<Rightarrow> exn + pyval" where
  "json_loads lib x = (case x of PStr s \<Rightarrow> json_decode lib s | _ \<Rightarrow> Inl TypeError)"

text \<open>\<^verbatim>\<open>obj[key]\<close> with a \<^verbatim>\<open>str\<close> key: a lookup in a dict, \<^verbatim>\<open>TypeError\<close> on anything else.\<close>

definition getitem_key :: "pyval \<Rightarrow> string \<Rightarrow> exn + pyval" where
  "getitem_key obj k =
     (case obj of
        PDict kvs \<Rightarrow> (case map_of kvs k of Some v \<Rightarrow> Inr v | None \<Rightarrow> Inl KeyError)
      | _ \<Rightarrow> Inl TypeError)"

text \<open>\<^verbatim>\<open>obj[key] = v\<close> with a \<^verbatim>\<open>str\<close> key: the entry keeps its place in the dict.\<close>

fun dict_set :: "(string \<times> pyval) list \<Rightarrow> string \<Rightarrow> pyval \<Rightarrow> (string \<times> pyval) list" where
  "dict_set [] k v = [(k, v)]"
| "dict_set (kv # kvs) k v = (if fst kv = k then (k, v) # kvs else kv # dict_set kvs k v)"

definition setitem_key :: "pyval \<Rightarrow> string \<Rightarrow> pyval \<Rightarrow> exn + pyval" where
  "setitem_key obj k v =
     (case obj of PDict kvs \<Rightarrow> Inr (PDict (dict_set kvs k v)) | _ \<Rightarrow> Inl TypeError)"

text \<open>
  \<^verbatim>\<open>seq[i]\<close> on a sequence of length \<^verbatim>\<open>n\<close>: a negative index counts from the end,
  \<^verbatim>\<open>IndexError\<close> out of range.
\<close>

definition seq_index :: "'a list \<Rightarrow> int \<Rightarrow> exn + 'a" where
  "seq_index xs i =
     (if 0 \<le> i \<and> i < int (length xs) then Inr (xs ! nat i)
      else if i < 0 \<and> - i \<le> int (length xs) then Inr (xs ! nat (int (length xs) + i))
      else Inl IndexError)"

text \<open>
  \<^verbatim>\<open>obj[i]\<close> with an \<^verbatim>\<open>int\<close>: an element of a list, a one-character string of a
  \<^verbatim>\<open>str\<close>, \<^verbatim>\<open>KeyError\<close> on a dict (a decoded object has \<^verbatim>\<open>str\<close> keys only),
  \<^verbatim>\<open>TypeError\<close> on the rest.
\<close>

definition getitem_int :: "pyval \<Rightarrow> int \<Rightarrow> exn + pyval" where
  "getitem_int obj i =
     (case obj of
        PList xs \<Rightarrow> seq_index xs i
      | PStr s \<Rightarrow> bind_exn (seq_index s i) (\<lambda>c. Inr (PStr [c]))
      | PDict kvs \<Rightarrow> Inl KeyError
      | _ \<Rightarrow> Inl TypeError)"

text \<open>
  \<^verbatim>\<open>for p in obj\<close>: the elements of a list, the keys of a dict, the characters of a
  \<^verbatim>\<open>str\<close>; the other objects are not iterable.
\<close>

definition py_iter :: "pyval \<Rightarrow> exn + pyval list" where
  "py_iter obj =
     (case obj of
        PList xs \<Rightarrow> Inr xs
      | PDict kvs \<Rightarrow> Inr (map (\<lambda>kv. PStr (fst kv)) kvs)
      | PStr s \<Rightarrow> Inr (map (\<lambda>c. PStr [c]) s)
      | _ \<Rightarrow> Inl TypeError)"

text \<open>\<^verbatim>\<open>obj.items()\<close> and \<^verbatim>\<open>obj.values()\<close>: only a dict has them.\<close>

definition py_items :: "pyval \<Rightarrow> exn + (string \<times> pyval) list" where
  "py_items obj = (case obj of PDict kvs \<Rightarrow> Inr kvs | _ \<Rightarrow> Inl AttributeError)"

definition py_values :: "pyval \<Rightarrow> exn + pyval list" where
  "py_values obj = (case obj of PDict kvs \<Rightarrow> Inr (map snd kvs) | _ \<Rightarrow> Inl AttributeError)"

text \<open>\<^verbatim>\<open>len(obj)\<close> for the objects that have a length.\<close>

definition py_len :: "pyval \<Rightarrow> exn + nat" where
  "py_len obj =
     (case obj of
        PList xs \<Rightarrow> Inr (length xs)
      | PDict kvs \<Rightarrow> Inr (length kvs)
      | PStr s \<Rightarrow> Inr (length s)
      | _ \<Rightarrow> Inl TypeError)"

section \<open>The store\<close>

text \<open>
  \<^verbatim>\<open>conn.execute(sql, params)\<close> either raises or returns a cursor. A cursor yields rows and
  may raise after the last row it yields. The row type of a statement is fixed by its
  SELECT list, so it is a type parameter.
\<close>

datatype 'r cursor = Cursor (fetched: "'r list") (broken: "exn option")

type_synonym 'r conn = "string \<Rightarrow> pyval list \<Rightarrow> exn + 'r cursor"

text \<open>\<^verbatim>\<open>cursor.fetchone()\<close>: the first row, or \<^verbatim>\<open>None\<close> when there is none.\<close>

definition fetchone :: "'r cursor \<Rightarrow> exn + 'r option" where
  "fetchone c =
     (case fetched c of
        r # rs \<Rightarrow> Inr (Some r)
      | [] \<Rightarrow> (case broken c of None \<Rightarrow> Inr None | Some e \<Rightarrow> Inl e))"

text \<open>Running a cursor to its end, as a \<^verbatim>\<open>for\<close> loop or a generator does.\<close>

definition fetch_rows :: "'r cursor \<Rightarrow> exn + 'r list" where
  "fetch_rows c = (case broken c of None \<Rightarrow> Inr (fetched c) | Some e \<Rightarrow> Inl e)"

definition newline :: string where
  "newline = [CHR 0x0A]"

section \<open>Lookup operations\<close>

definition list_categories :: "stdlib \<Rightarrow> (pyval \<times> pyval \<times> pyval) conn \<Rightarrow> exn + pyval" where
  "list_categories lib conn =
     bind_exn (conn ''SELECT id,category,subcategory FROM categories'' []) (\<lambda>result.
     bind_exn (fetch_rows result) (\<lambda>rows.
       Inr (PStr (''|Category ID|Category Name|Subcategory Name|'' @ newline @ ''|--|--|--|'' @ newline @
         join newline (map (\<lambda>r. ''|'' @ py_str lib (fst r) @ ''|'' @ py_str lib (fst (snd r)) @ ''|'' @
           py_str lib (snd (snd r)) @ ''|'') rows)))))"

definition list_manufacturers :: "stdlib \<Rightarrow> (pyval \<times> pyval) conn \<Rightarrow> exn + pyval" where
  "list_manufacturers lib conn =
     bind_exn (conn ''SELECT id,name FROM manufacturers'' []) (\<lambda>result.
     bind_exn (fetch_rows result) (\<lambda>rows.
       Inr (PStr (''|Manufacturer ID|Manufacturer Name|'' @ newline @ ''|--|--|'' @ newline @
         join newline (map (\<lambda>r. ''|'' @ py_str lib (fst r) @ ''|'' @ py_str lib (snd r) @ ''|'') rows)))))"

definition get_category :: "stdlib \<Rightarrow> (pyval \<times> pyval) conn \<Rightarrow> int \<Rightarrow> exn + pyval" where
  "get_category lib conn cid =
     bind_exn (conn ''SELECT category,subcategory FROM categories WHERE id=?'' [PInt cid]) (\<lambda>cur.
     bind_exn (fetchone cur) (\<lambda>result.
       case result of
         Some r \<Rightarrow> Inr (PStr (''Category: '' @ py_str lib (fst r) @ '', Subcategory: '' @ py_str lib (snd r)))
       | None \<Rightarrow> Inr PNone))"

definition get_manufacturer :: "pyval conn \<Rightarrow> int \<Rightarrow> exn + pyval" where
  "get_manufacturer conn mid =
     bind_exn (conn ''SELECT name FROM manufacturers WHERE id=?'' [PInt mid]) (\<lambda>cur.
     bind_exn (fetchone cur) (\<lambda>result.
       case result of Some r \<Rightarrow> Inr r | None \<Rightarrow> Inr PNone))"

definition search_manufacturer :: "stdlib \<Rightarrow> (pyval \<times> pyval) conn \<Rightarrow> string \<Rightarrow> exn + pyval" where
  "search_manufacturer lib conn name =
     bind_exn (conn ''SELECT id,name FROM manufacturers WHERE name LIKE ?'' [PStr (''%'' @ name @ ''%'')])
       (\<lambda>result.
     bind_exn (fetch_rows result) (\<lambda>rows.
       let lines = map (\<lambda>r. ''|'' @ py_str lib (fst r) @ ''|'' @ py_str lib (snd r) @ ''|'') rows
       in if lines \<noteq> []
          then Inr (PStr (''|Manufacturer ID|Manufacturer Name|'' @ newline @ join newline lines))
          else Inr PNone))"

definition get_datasheet_url :: "pyval conn \<Rightarrow> int \<Rightarrow> exn + pyval" where
  "get_datasheet_url conn part_id =
     bind_exn (conn ''SELECT datasheet FROM components WHERE lcsc=?'' [PInt part_id]) (\<lambda>cur.
     bind_exn (fetchone cur) (\<lambda>result.
       case result of Some r \<Rightarrow> Inr r | None \<Rightarrow> Inr PNone))"

section \<open>The image selector\<close>

text \<open>
  \<^verbatim>\<open>os.path.splitext\<close> (POSIX): the extension starts at the last dot of the path, provided
  that dot comes after the last slash and some character between the two is not a dot.
\<close>

definition rfind :: "string \<Rightarrow> char \<Rightarrow> int" where
  "rfind p c =
     (if c \<in> set p then int (length p) - 1 - int (length (takeWhile (\<lambda>x. x \<noteq> c) (rev p))) else - 1)"

definition splitext :: "string \<Rightarrow> string \<times> string" where
  "splitext p =
     (let sepIndex = rfind p (CHR ''/'');
          dotIndex = rfind p (CHR ''.'')
      in if dotIndex > sepIndex \<and>
            filter (\<lambda>x. x \<noteq> CHR ''.'') (take (nat (dotIndex - (sepIndex + 1))) (drop (nat (sepIndex + 1)) p)) \<noteq> []
         then (take (nat dotIndex) p, drop (nat dotIndex) p)
         else (p, []))"

text \<open>\<^verbatim>\<open>s.replace('.', '')\<close>.\<close>

definition remove_dots :: "string \<Rightarrow> string" where
  "remove_dots s = filter (\<lambda>x. x \<noteq> CHR ''.'') s"

text \<open>
  \<^verbatim>\<open>os.path.splitext(urllib.parse.urlparse(url).path)[1].replace('.', '')\<close>. A \<^verbatim>\<open>url\<close> that
  is not a \<^verbatim>\<open>str\<close> never gets through: \<^verbatim>\<open>urlparse\<close> calls \<^verbatim>\<open>decode\<close> on a true object
  (\<^verbatim>\<open>AttributeError\<close>) and turns a false one into an empty \<^verbatim>\<open>bytes\<close> path, on which
  \<^verbatim>\<open>replace\<close> with \<^verbatim>\<open>str\<close> arguments raises \<^verbatim>\<open>TypeError\<close>.
\<close>

definition url_ext :: "stdlib \<Rightarrow> pyval \<Rightarrow> exn + string" where
  "url_ext lib url =
     (case url of
        PStr u \<Rightarrow> bind_exn (urlparse_path lib u) (\<lambda>path. Inr (remove_dots (snd (splitext path))))
      | _ \<Rightarrow> Inl (if py_truthy url then AttributeError else TypeError))"

text \<open>\<^verbatim>\<open>if ext == 'jpg': ext = 'jpeg'\<close>.\<close>

definition normalize_ext :: "string \<Rightarrow> string" where
  "normalize_ext ext = (if ext = ''jpg'' then ''jpeg'' else ext)"

text \<open>
  \<^verbatim>\<open>list(images.values())[int(len(images) / 2)]\<close>. The quotient is a float; it is exact
  for every length a dict can have, and \<^verbatim>\<open>int\<close> truncates it, so the index is the integer
  quotient.
\<close>

definition select_url :: "pyval \<Rightarrow> exn + pyval" where
  "select_url images =
     bind_exn (py_values images) (\<lambda>vals.
     bind_exn (py_len images) (\<lambda>n.
       seq_index vals (int (n div 2))))"

text \<open>\<^verbatim>\<open>urllib.request.urlopen(url).read()\<close>; here \<^verbatim>\<open>url\<close> is a \<^verbatim>\<open>str\<close> already.\<close>

definition fetch_url :: "stdlib \<Rightarrow> pyval \<Rightarrow> exn + string" where
  "fetch_url lib url = (case url of PStr u \<Rightarrow> urlopen_read lib u | _ \<Rightarrow> Inl TypeError)"

text \<open>\<^verbatim>\<open>Image(data=..., format=...)\<close> of FastMCP stores its two arguments.\<close>

record Image =
  data :: string
  format :: string

text \<open>\<^verbatim>\<open>images = json.loads(result[0])['images'][0]\<close>.\<close>

definition load_images :: "stdlib \<Rightarrow> pyval \<Rightarrow> exn + pyval" where
  "load_images lib r =
     bind_exn (json_loads lib r) (\<lambda>doc.
     bind_exn (getitem_key doc ''images'') (\<lambda>imgs.
       getitem_int imgs 0))"

text \<open>
  The rest of the branch: the URL, the extension, and the image built from the fetched
  bytes. The extension is computed before the fetch.
\<close>

definition image_of :: "stdlib \<Rightarrow> pyval \<Rightarrow> exn + Image" where
  "image_of lib images =
     bind_exn (select_url images) (\<lambda>url.
     bind_exn (url_ext lib url) (\<lambda>ext.
     bind_exn (fetch_url lib url) (\<lambda>bytes.
       Inr \<lparr>data = bytes, format = normalize_ext ext\<rparr>)))"

text \<open>
  The body of the \<^verbatim>\<open>try\<close> of \<^verbatim>\<open>get_part_image\<close>. The row is a 1-tuple, which is true
  as a condition whatever it holds.
\<close>

definition part_image_body :: "stdlib \<Rightarrow> pyval conn \<Rightarrow> int \<Rightarrow> exn + Image option" where
  "part_image_body lib conn part_id =
     bind_exn (conn ''SELECT extra FROM components WHERE lcsc=?'' [PInt part_id]) (\<lambda>cur.
     bind_exn (fetchone cur) (\<lambda>result.
       case result of
         Some r \<Rightarrow>
           bind_exn (load_images lib r) (\<lambda>images.
           bind_exn (image_of lib images) (\<lambda>img.
             Inr (Some img)))
       | None \<Rightarrow> Inr None))"

text \<open>
  \<^verbatim>\<open>get_part_image\<close>: the \<^verbatim>\<open>except Exception\<close> handler prints the exception to
  \<^verbatim>\<open>sys.stderr\<close> and returns \<^verbatim>\<open>None\<close>. The second component is what was printed.
\<close>

definition get_part_image :: "stdlib \<Rightarrow> pyval conn \<Rightarrow> int \<Rightarrow> (exn + Image option) \<times> exn list" where
  "get_part_image lib conn part_id =
     (case part_image_body lib conn part_id of
        Inl e \<Rightarrow> (Inr None, [e])
      | Inr v \<Rightarrow> (Inr v, []))"

section \<open>The row presenter and the part search\<close>

text \<open>
  A row of the statement of \<^verbatim>\<open>search_parts\<close>: its eleven columns, \<^verbatim>\<open>r[0]\<close> to \<^verbatim>\<open>r[10]\<close>,
  named after the SELECT list.
\<close>

record part_row =
  c_lcsc :: pyval
  c_category_id :: pyval
  c_manufacturer_id :: pyval
  c_mfr :: pyval
  c_basic :: pyval
  c_preferred :: pyval
  c_description :: pyval
  c_package :: pyval
  c_stock :: pyval
  c_price :: pyval
  c_extra :: pyval

text \<open>
  One turn of \<^verbatim>\<open>for p in prices\<close>: the two \<^verbatim>\<open>None\<close> bounds are overwritten in the tier
  itself, then the f-string reads the three keys. The result is the tier as the turn
  leaves it, and the text appended to \<^verbatim>\<open>price\<close>.
\<close>

definition price_tier :: "stdlib \<Rightarrow> pyval \<Rightarrow> exn + pyval \<times> string" where
  "price_tier lib p =
     bind_exn (getitem_key p ''qFrom'') (\<lambda>a.
     bind_exn (if a = PNone then setitem_key p ''qFrom'' (PStr []) else Inr p) (\<lambda>p1.
     bind_exn (getitem_key p1 ''qTo'') (\<lambda>b.
     bind_exn (if b = PNone then setitem_key p1 ''qTo'' (PStr []) else Inr p1) (\<lambda>p2.
     bind_exn (getitem_key p2 ''qFrom'') (\<lambda>f.
     bind_exn (getitem_key p2 ''qTo'') (\<lambda>t.
     bind_exn (getitem_key p2 ''price'') (\<lambda>c.
       Inr (p2, py_str lib f @ ''-'' @ py_str lib t @ '' '' @ py_str lib c @ ''USD/pc''))))))))"

fun price_loop :: "stdlib \<Rightarrow> pyval list \<Rightarrow> pyval list \<Rightarrow> string list \<Rightarrow> exn + pyval list \<times> string list" where
  "price_loop lib [] seen price = Inr (seen, price)"
| "price_loop lib (p # ps) seen price =
     bind_exn (price_tier lib p) (\<lambda>r. price_loop lib ps (seen @ [fst r]) (price @ [snd r]))"

text \<open>The body of the first \<^verbatim>\<open>try\<close>, on the column \<^verbatim>\<open>r[9]\<close>.\<close>

definition price_try :: "stdlib \<Rightarrow> pyval \<Rightarrow> exn + string" where
  "price_try lib field =
     bind_exn (json_loads lib field) (\<lambda>prices.
     bind_exn (py_iter prices) (\<lambda>tiers.
     bind_exn (price_loop lib tiers [] []) (\<lambda>r.
       Inr (join '', '' (snd r)))))"

text \<open>The \<^verbatim>\<open>try\<close> with its handler: the text of the cell, and what was printed.\<close>

definition price_cell :: "stdlib \<Rightarrow> pyval \<Rightarrow> string \<times> exn list" where
  "price_cell lib field =
     (case price_try lib field of Inl e \<Rightarrow> (''No info'', [e]) | Inr s \<Rightarrow> (s, []))"

fun attr_loop :: "stdlib \<Rightarrow> (string \<times> pyval) list \<Rightarrow> string list \<Rightarrow> string list" where
  "attr_loop lib [] chars = chars"
| "attr_loop lib (kv # kvs) chars =
     attr_loop lib kvs (chars @ [fst kv @ '':'' @ py_str lib (snd kv)])"

text \<open>The body of the second \<^verbatim>\<open>try\<close>, on the column \<^verbatim>\<open>r[10]\<close>, and the \<^verbatim>\<open>try\<close> itself.\<close>

definition attr_try :: "stdlib \<Rightarrow> pyval \<Rightarrow> exn + string" where
  "attr_try lib field =
     bind_exn (json_loads lib field) (\<lambda>extra.
     bind_exn (getitem_key extra ''attributes'') (\<lambda>attrs.
     bind_exn (py_items attrs) (\<lambda>items.
       Inr (join '', '' (attr_loop lib items [])))))"

definition attr_cell :: "stdlib \<Rightarrow> pyval \<Rightarrow> string \<times> exn list" where
  "attr_cell lib field =
     (case attr_try lib field of Inl e \<Rightarrow> (''No info'', [e]) | Inr s \<Rightarrow> (s, []))"

text \<open>The f-string that makes the line of a row.\<close>

definition format_line :: "stdlib \<Rightarrow> part_row \<Rightarrow> string \<Rightarrow> string \<Rightarrow> string" where
  "format_line lib r price_data char_data =
     ''|'' @ py_str lib (c_lcsc r) @ ''|'' @ py_str lib (c_category_id r) @
     ''|'' @ py_str lib (c_manufacturer_id r) @ ''|'' @ py_str lib (c_mfr r) @
     ''|'' @ py_str lib (c_basic r) @ ''|'' @ py_str lib (c_preferred r) @
     ''|'' @ py_str lib (c_description r) @ ''|'' @ py_str lib (c_package r) @
     ''|'' @ py_str lib (c_stock r) @ ''|'' @ price_data @ ''|'' @ char_data @ ''|''"

definition present_row :: "stdlib \<Rightarrow> part_row \<Rightarrow> string \<times> exn list" where
  "present_row lib r =
     (let pc = price_cell lib (c_price r);
          ac = attr_cell lib (c_extra r)
      in (format_line lib r (fst pc) (fst ac), snd pc @ snd ac))"

text \<open>\<^verbatim>\<open>for r in result\<close>, with the lines and the printed exceptions so far.\<close>

fun rows_loop :: "stdlib \<Rightarrow> part_row list \<Rightarrow> string list \<Rightarrow> exn list \<Rightarrow> string list \<times> exn list" where
  "rows_loop lib [] lines log = (lines, log)"
| "rows_loop lib (r # rs) lines log =
     rows_loop lib rs (lines @ [fst (present_row lib r)]) (log @ snd (present_row lib r))"

definition parts_header :: string where
  "parts_header =
     ''|Part Number|Category ID|Manufacturer ID|Manufacturer PN|Basic Parts|Preferred Parts|Description|Package|Stock|Price|Attributes|''
     @ newline @ ''|--|--|--|--|--|--|--|--|--|--|--|'' @ newline"

text \<open>
  \<^verbatim>\<open>search_parts\<close>: the value returned or the exception raised, and what was printed to
  \<^verbatim>\<open>sys.stderr\<close>. The store is called and run outside the two \<^verbatim>\<open>try\<close> blocks.
\<close>

definition search_parts :: "stdlib \<Rightarrow> part_row conn \<Rightarrow> SearchQuery \<Rightarrow> (exn + pyval) \<times> exn list" where
  "search_parts lib conn search_query =
     (case conn (query_text search_query) (params search_query) of
        Inl e \<Rightarrow> (Inl e, [])
      | Inr result \<Rightarrow>
          (let out = rows_loop lib (fetched result) [] []
           in case broken result of
                Some e \<Rightarrow> (Inl e, snd out)
              | None \<Rightarrow> (Inr (PStr (parts_header @ join newline (fst out))), snd out)))"

section \<open>Reference notions and example inputs\<close>

subsection \<open>For the filter compiler\<close>

text \<open>
  The number of optional fields that are present, read as the specification words it:
  a field counts when it is not the unset value \<^verbatim>\<open>None\<close>.
\<close>

definition opt_count :: "'a option \<Rightarrow> nat" where
  "opt_count v = (case v of None \<Rightarrow> 0 | Some x \<Rightarrow> 1)"

definition optional_fields_present :: "SearchQuery \<Rightarrow> nat" where
  "optional_fields_present sq =
     opt_count (manufacturer_id sq) + opt_count (manufacturer_pn sq) + opt_count (description sq)
     + opt_count (package sq) + opt_count (is_basic_parts sq) + opt_count (is_preferred_parts sq)"

text \<open>
  The number of optional fields that pass the test the code applies to them: a text field
  counts when it is a non-empty string.
\<close>

definition truthy_count :: "string option \<Rightarrow> nat" where
  "truthy_count v = (if str_truthy v then 1 else 0)"

definition optional_fields_applied :: "SearchQuery \<Rightarrow> nat" where
  "optional_fields_applied sq =
     opt_count (manufacturer_id sq) + truthy_count (manufacturer_pn sq) + truthy_count (description sq)
     + truthy_count (package sq) + opt_count (is_basic_parts sq) + opt_count (is_preferred_parts sq)"

text \<open>Every predicate text the compiler can emit.\<close>

definition known_clauses :: "string list" where
  "known_clauses = [''category_id=?'', ''manufacturer_id=?'', ''mfr LIKE ?'', ''description LIKE ?'',
     ''package=?'', ''basic=1'', ''basic=0'', ''preferred=1'', ''preferred=0'']"

text \<open>
  What of a filter record decides the query text: which value fields pass their test, and
  the two tri-state fields.
\<close>

definition shape :: "SearchQuery \<Rightarrow> bool \<times> bool \<times> bool \<times> bool \<times> bool option \<times> bool option" where
  "shape sq = (manufacturer_id sq \<noteq> None, str_truthy (manufacturer_pn sq), str_truthy (description sq),
     str_truthy (package sq), is_basic_parts sq, is_preferred_parts sq)"

text \<open>The predicates that carry a placeholder.\<close>

definition placeholder_clauses :: "SearchQuery \<Rightarrow> string list" where
  "placeholder_clauses sq = filter (\<lambda>c. CHR ''?'' \<in> set c) (where_clauses sq)"

text \<open>
  The values a caller supplies other than the two tri-state fields, read as the
  specification words it: every such field that is not \<^verbatim>\<open>None\<close>, in the order of the
  record.
\<close>

definition supplied_values :: "SearchQuery \<Rightarrow> pyval list" where
  "supplied_values sq =
     PInt (category_id sq) #
     (case manufacturer_id sq of None \<Rightarrow> [] | Some m \<Rightarrow> [PInt m]) @
     (case manufacturer_pn sq of None \<Rightarrow> [] | Some s \<Rightarrow> [PStr s]) @
     (case description sq of None \<Rightarrow> [] | Some s \<Rightarrow> [PStr s]) @
     (case package sq of None \<Rightarrow> [] | Some s \<Rightarrow> [PStr s])"

definition empty_pn_query :: SearchQuery where
  "empty_pn_query = \<lparr>category_id = 5, manufacturer_id = None, manufacturer_pn = Some [],
     description = None, package = None, is_basic_parts = None, is_preferred_parts = None\<rparr>"

definition full_query :: SearchQuery where
  "full_query = \<lparr>category_id = 5, manufacturer_id = Some 7, manufacturer_pn = Some ''RC%'',
     description = Some ''%10k%'', package = Some ''0603'', is_basic_parts = Some True,
     is_preferred_parts = Some False\<rparr>"

definition other_query :: SearchQuery where
  "other_query = \<lparr>category_id = 9, manufacturer_id = Some 1, manufacturer_pn = Some ''x'',
     description = Some '' OR 1=1'', package = Some ''y'', is_basic_parts = Some True,
     is_preferred_parts = Some False\<rparr>"

subsection \<open>For the row presenter\<close>

text \<open>
  A pricing tier as the data model has it: two bounds that may be open, and a unit price
  that is an integer or a float (held as its text, like every float here).
\<close>

datatype number = NInt int | NFloat string

record tier =
  qFrom :: "int option"
  qTo :: "int option"
  qPrice :: number








text \<open>
  A tier of the right type, read as the data model words it: a dict whose \<^verbatim>\<open>qFrom\<close> and
  \<^verbatim>\<open>qTo\<close> are an integer or null and whose \<^verbatim>\<open>price\<close> is a number.
\<close>

definition is_bound :: "pyval \<Rightarrow> bool" where
  "is_bound v = (case v of PNone \<Rightarrow> True | PInt i \<Rightarrow> True | _ \<Rightarrow> False)"

definition is_number :: "pyval \<Rightarrow> bool" where
  "is_number v = (case v of PInt i \<Rightarrow> True | PFloat r \<Rightarrow> True | _ \<Rightarrow> False)"

definition well_typed_tier :: "pyval \<Rightarrow> bool" where
  "well_typed_tier p =
     (case p of
        PDict kvs \<Rightarrow>
          (case map_of kvs ''qFrom'' of Some a \<Rightarrow> is_bound a | None \<Rightarrow> False) \<and>
          (case map_of kvs ''qTo'' of Some b \<Rightarrow> is_bound b | None \<Rightarrow> False) \<and>
          (case map_of kvs ''price'' of Some c \<Rightarrow> is_number c | None \<Rightarrow> False)
      | _ \<Rightarrow> False)"

text \<open>What one turn of the price loop needs of its element: a dict with the three keys.\<close>

definition is_dict :: "pyval \<Rightarrow> bool" where
  "is_dict p = (case p of PDict kvs \<Rightarrow> True | _ \<Rightarrow> False)"

definition complete_tier :: "pyval \<Rightarrow> bool" where
  "complete_tier p =
     (case p of
        PDict kvs \<Rightarrow> map_of kvs ''qFrom'' \<noteq> None \<and> map_of kvs ''qTo'' \<noteq> None \<and> map_of kvs ''price'' \<noteq> None
      | _ \<Rightarrow> False)"

text \<open>
  When the first \<^verbatim>\<open>try\<close> raises: the column is not text, the decoder rejects the text, the
  document cannot be iterated, or one of its elements is not a dict with the three keys.
\<close>

definition price_unreadable :: "stdlib \<Rightarrow> pyval \<Rightarrow> bool" where
  "price_unreadable lib field =
     (case json_loads lib field of
        Inl e \<Rightarrow> True
      | Inr doc \<Rightarrow> (case py_iter doc of Inl e \<Rightarrow> True | Inr ps \<Rightarrow> \<not> list_all complete_tier ps))"

text \<open>A tier after a turn of the loop, and the text the turn appends.\<close>

definition blank_bound :: "string \<Rightarrow> (string \<times> pyval) list \<Rightarrow> (string \<times> pyval) list" where
  "blank_bound k kvs = (if map_of kvs k = Some PNone then dict_set kvs k (PStr []) else kvs)"

definition field_of :: "(string \<times> pyval) list \<Rightarrow> string \<Rightarrow> pyval" where
  "field_of kvs k = (case map_of kvs k of Some v \<Rightarrow> v | None \<Rightarrow> PNone)"

definition shown_bound :: "stdlib \<Rightarrow> pyval \<Rightarrow> string" where
  "shown_bound lib v = (if v = PNone then [] else py_str lib v)"

definition tier_after :: "pyval \<Rightarrow> pyval" where
  "tier_after p = (case p of PDict kvs \<Rightarrow> PDict (blank_bound ''qTo'' (blank_bound ''qFrom'' kvs)) | _ \<Rightarrow> p)"

definition tier_shown :: "stdlib \<Rightarrow> pyval \<Rightarrow> string" where
  "tier_shown lib p =
     (case p of
        PDict kvs \<Rightarrow> shown_bound lib (field_of kvs ''qFrom'') @ ''-'' @ shown_bound lib (field_of kvs ''qTo'')
          @ '' '' @ py_str lib (field_of kvs ''price'') @ ''USD/pc''
      | _ \<Rightarrow> [])"

text \<open>
  An attribute value of the data model is a string or a number; its text in the words of
  the specification.
\<close>

definition is_scalar :: "pyval \<Rightarrow> bool" where
  "is_scalar v = (case v of PStr s \<Rightarrow> True | PInt i \<Rightarrow> True | PFloat r \<Rightarrow> True | _ \<Rightarrow> False)"

definition scalar_text :: "pyval \<Rightarrow> string" where
  "scalar_text v = (case v of PStr s \<Rightarrow> s | PInt i \<Rightarrow> str_int i | PFloat r \<Rightarrow> r | _ \<Rightarrow> [])"

definition spec_attr_text :: "(string \<times> pyval) list \<Rightarrow> string" where
  "spec_attr_text kvs = join '', '' (map (\<lambda>kv. fst kv @ '':'' @ scalar_text (snd kv)) kvs)"

subsection \<open>Example documents and a library to decode them\<close>

definition price_json :: string where
  "price_json = ''[{\"qFrom\": null, \"qTo\": 10, \"price\": 1.5}]''"

definition extra_json :: string where
  "extra_json = ''{\"attributes\": {\"Resistance\": \"10k\", \"Tolerance\": \"1%\"}, \"images\": [{\"96x96\": \"https://assets.lcsc.com/images/a_96.jpg\", \"224x224\": \"https://assets.lcsc.com/images/a_224.jpg\", \"900x900\": \"https://assets.lcsc.com/images/a_900.jpg\"}]}''"

definition odd_image_json :: string where
  "odd_image_json = ''{\"images\": [{\"96x96\": \"https://assets.lcsc.com/images/b.xyz\"}]}''"

definition wrong_type_json :: string where
  "wrong_type_json = ''[{\"qFrom\": \"abc\", \"qTo\": [], \"price\": null}]''"

definition no_image_json :: string where
  "no_image_json = ''{\"images\": [{}]}''"


definition example_tier_dict :: pyval where
  "example_tier_dict = PDict [(''qFrom'', PNone), (''qTo'', PInt 10), (''price'', PFloat ''1.5'')]"


definition wrong_type_tier :: pyval where
  "wrong_type_tier = PDict [(''qFrom'', PStr ''abc''), (''qTo'', PList []), (''price'', PNone)]"

definition example_attributes :: "(string \<times> pyval) list" where
  "example_attributes = [(''Resistance'', PStr ''10k''), (''Tolerance'', PStr ''1%'')]"

definition example_images :: "(string \<times> pyval) list" where
  "example_images =
     [(''96x96'', PStr ''https://assets.lcsc.com/images/a_96.jpg''),
      (''224x224'', PStr ''https://assets.lcsc.com/images/a_224.jpg''),
      (''900x900'', PStr ''https://assets.lcsc.com/images/a_900.jpg'')]"

definition png_images :: "(string \<times> pyval) list" where
  "png_images = [(''96x96'', PStr ''https://assets.lcsc.com/images/c.png'')]"

definition gone_images :: "(string \<times> pyval) list" where
  "gone_images = [(''96x96'', PStr ''https://assets.lcsc.com/images/gone.jpg'')]"

definition alien_images :: "(string \<times> pyval) list" where
  "alien_images = [(''96x96'', PStr ''ftp://elsewhere/a.jpg'')]"

definition extra_entries :: "(string \<times> pyval) list" where
  "extra_entries = [(''attributes'', PDict example_attributes), (''images'', PList [PDict example_images])]"

definition odd_entries :: "(string \<times> pyval) list" where
  "odd_entries = [(''images'', PList [PDict [(''96x96'', PStr ''https://assets.lcsc.com/images/b.xyz'')]])]"

text \<open>
  A library for the examples: it decodes the five documents above, the empty list and the
  empty object as \<^verbatim>\<open>json.loads\<close> does and rejects every other text, quotes a string in single quotes, takes the path of a URL
  on the one host of the examples and fails on any other, and fetches every URL but one.
\<close>

definition demo_decode :: "string \<Rightarrow> exn + pyval" where
  "demo_decode s =
     (if s = price_json then Inr (PList [example_tier_dict])
      else if s = extra_json then Inr (PDict extra_entries)
      else if s = odd_image_json then Inr (PDict odd_entries)
      else if s = no_image_json then Inr (PDict [(''images'', PList [PDict []])])
      else if s = ''[]'' then Inr (PList [])
      else if s = ''{}'' then Inr (PDict [])
      else if s = wrong_type_json then Inr (PList [wrong_type_tier])
      else Inl JSONDecodeError)"

definition demo_repr :: "string \<Rightarrow> string" where
  "demo_repr s = [CHR 0x27] @ s @ [CHR 0x27]"

definition demo_path :: "string \<Rightarrow> exn + string" where
  "demo_path u =
     (if take 23 u = ''https://assets.lcsc.com'' then Inr (drop 23 u) else Inl ValueError)"

definition demo_fetch :: "string \<Rightarrow> exn + string" where
  "demo_fetch u =
     (if u = ''https://assets.lcsc.com/images/gone.jpg'' then Inl URLError else Inr (''bytes of '' @ u))"

definition demo_lib :: stdlib where
  "demo_lib = \<lparr>json_decode = demo_decode, repr_str = demo_repr, urlparse_path = demo_path,
     urlopen_read = demo_fetch\<rparr>"

definition bad_price_row :: part_row where
  "bad_price_row = \<lparr>c_lcsc = PInt 25804, c_category_id = PInt 5, c_manufacturer_id = PInt 7,
     c_mfr = PStr ''0603WAF1002T5E'', c_basic = PInt 1, c_preferred = PInt 0,
     c_description = PStr ''10k 1% 0603'', c_package = PStr ''0603'', c_stock = PInt 100,
     c_price = PStr ''oops'', c_extra = PStr extra_json\<rparr>"

definition null_price_row :: part_row where
  "null_price_row = bad_price_row\<lparr>c_price := PNone\<rparr>"

definition empty_price_row :: part_row where
  "empty_price_row = bad_price_row\<lparr>c_price := PStr []\<rparr>"

subsection \<open>Example stores\<close>

text \<open>A store that refuses every statement, and one whose cursor breaks after its rows.\<close>

definition failing_conn :: "exn \<Rightarrow> 'r conn" where
  "failing_conn e q ps = Inl e"

definition breaking_conn :: "'r list \<Rightarrow> exn \<Rightarrow> 'r conn" where
  "breaking_conn rows e q ps = Inr (Cursor rows (Some e))"

text \<open>A store that answers every statement with the same rows.\<close>

definition fixed_conn :: "'r list \<Rightarrow> 'r conn" where
  "fixed_conn rows q ps = Inr (Cursor rows None)"

section \<open>The filter compiler: what it emits\<close>

lemma fst_add_manufacturer_id:
  "fst (add_manufacturer_id sq b) =
     fst b @ (case manufacturer_id sq of None \<Rightarrow> [] | Some m \<Rightarrow> [''manufacturer_id=?''])"
  by (simp add: add_manufacturer_id_def split: option.split)

lemma snd_add_manufacturer_id:
  "snd (add_manufacturer_id sq b) =
     snd b @ (case manufacturer_id sq of None \<Rightarrow> [] | Some m \<Rightarrow> [PInt m])"
  by (simp add: add_manufacturer_id_def split: option.split)

lemma fst_add_manufacturer_pn:
  "fst (add_manufacturer_pn sq b) =
     fst b @ (if str_truthy (manufacturer_pn sq) then [''mfr LIKE ?''] else [])"
  by (simp add: add_manufacturer_pn_def)

lemma snd_add_manufacturer_pn:
  "snd (add_manufacturer_pn sq b) =
     snd b @ (if str_truthy (manufacturer_pn sq) then [PStr (the (manufacturer_pn sq))] else [])"
  by (simp add: add_manufacturer_pn_def)

lemma fst_add_description:
  "fst (add_description sq b) =
     fst b @ (if str_truthy (description sq) then [''description LIKE ?''] else [])"
  by (simp add: add_description_def)

lemma snd_add_description:
  "snd (add_description sq b) =
     snd b @ (if str_truthy (description sq) then [PStr (the (description sq))] else [])"
  by (simp add: add_description_def)

lemma fst_add_package:
  "fst (add_package sq b) = fst b @ (if str_truthy (package sq) then [''package=?''] else [])"
  by (simp add: add_package_def)

lemma snd_add_package:
  "snd (add_package sq b) =
     snd b @ (if str_truthy (package sq) then [PStr (the (package sq))] else [])"
  by (simp add: add_package_def)

lemma fst_add_is_basic_parts:
  "fst (add_is_basic_parts sq b) =
     fst b @ (case is_basic_parts sq of None \<Rightarrow> []
              | Some v \<Rightarrow> [''basic='' @ (if v then ''1'' else ''0'')])"
  by (simp add: add_is_basic_parts_def split: option.split)

lemma snd_add_is_basic_parts: "snd (add_is_basic_parts sq b) = snd b"
  by (simp add: add_is_basic_parts_def split: option.split)

lemma fst_add_is_preferred_parts:
  "fst (add_is_preferred_parts sq b) =
     fst b @ (case is_preferred_parts sq of None \<Rightarrow> []
              | Some v \<Rightarrow> [''preferred='' @ (if v then ''1'' else ''0'')])"
  by (simp add: add_is_preferred_parts_def split: option.split)

lemma snd_add_is_preferred_parts: "snd (add_is_preferred_parts sq b) = snd b"
  by (simp add: add_is_preferred_parts_def split: option.split)

lemmas fst_add = fst_add_manufacturer_id fst_add_manufacturer_pn fst_add_description
  fst_add_package fst_add_is_basic_parts fst_add_is_preferred_parts

lemmas snd_add = snd_add_manufacturer_id snd_add_manufacturer_pn snd_add_description
  snd_add_package snd_add_is_basic_parts snd_add_is_preferred_parts

lemma where_clauses_eq:
  "where_clauses sq =
     ''category_id=?'' #
     (case manufacturer_id sq of None \<Rightarrow> [] | Some m \<Rightarrow> [''manufacturer_id=?'']) @
     (if str_truthy (manufacturer_pn sq) then [''mfr LIKE ?''] else []) @
     (if str_truthy (description sq) then [''description LIKE ?''] else []) @
     (if str_truthy (package sq) then [''package=?''] else []) @
     (case is_basic_parts sq of None \<Rightarrow> [] | Some v \<Rightarrow> [''basic='' @ (if v then ''1'' else ''0'')]) @
     (case is_preferred_parts sq of None \<Rightarrow> [] | Some v \<Rightarrow> [''preferred='' @ (if v then ''1'' else ''0'')])"
  unfolding where_clauses_def compile_filter_def fst_add init_builder_def
  by (simp only: fst_conv append_Nil append_Cons append_assoc)

lemma params_eq:
  "params sq =
     PInt (category_id sq) #
     (case manufacturer_id sq of None \<Rightarrow> [] | Some m \<Rightarrow> [PInt m]) @
     (if str_truthy (manufacturer_pn sq) then [PStr (the (manufacturer_pn sq))] else []) @
     (if str_truthy (description sq) then [PStr (the (description sq))] else []) @
     (if str_truthy (package sq) then [PStr (the (package sq))] else [])"
  unfolding params_def compile_filter_def snd_add init_builder_def
  by (simp only: snd_conv append_Nil append_Cons append_assoc)

lemma set_join: "set (join sep xs) \<subseteq> set sep \<union> \<Union> (set ` set xs)"
  by (induction sep xs rule: join.induct) auto

lemma length_where_clauses: "length (where_clauses sq) = 1 + optional_fields_applied sq"
  unfolding where_clauses_eq optional_fields_applied_def opt_count_def truthy_count_def
  by (cases "manufacturer_id sq"; cases "is_basic_parts sq"; cases "is_preferred_parts sq") simp_all

lemma where_clauses_known: "set (where_clauses sq) \<subseteq> set known_clauses"
  unfolding where_clauses_eq known_clauses_def
  by (cases "manufacturer_id sq"; cases "is_basic_parts sq"; cases "is_preferred_parts sq") auto

lemma no_O_in_where_text: "CHR ''O'' \<notin> set (where_text sq)"
proof -
  have "CHR ''O'' \<notin> \<Union> (set ` set known_clauses)"
    by (simp add: known_clauses_def)
  then have "CHR ''O'' \<notin> set '' AND '' \<union> \<Union> (set ` set (where_clauses sq))"
    using where_clauses_known[of sq] by auto
  then show ?thesis
    unfolding where_text_def using set_join by blast
qed

lemma no_OR_in_where_text: "\<not> sublist ''OR'' (where_text sq)"
  using no_O_in_where_text [of sq] by (auto simp: sublist_def)


lemma count_list_join:
  "count_list (join sep xs) c = sum_list (map (\<lambda>x. count_list x c) xs) + (length xs - 1) * count_list sep c"
  by (induction sep xs rule: join.induct) simp_all

lemma placeholders_eq:
  "placeholder_clauses sq =
     ''category_id=?'' #
     (case manufacturer_id sq of None \<Rightarrow> [] | Some m \<Rightarrow> [''manufacturer_id=?'']) @
     (if str_truthy (manufacturer_pn sq) then [''mfr LIKE ?''] else []) @
     (if str_truthy (description sq) then [''description LIKE ?''] else []) @
     (if str_truthy (package sq) then [''package=?''] else [])"
  unfolding placeholder_clauses_def where_clauses_eq
  by (cases "manufacturer_id sq"; cases "is_basic_parts sq"; cases "is_preferred_parts sq") simp_all

lemma bindings_eq:
  "zip (placeholder_clauses sq) (params sq) =
     (''category_id=?'', PInt (category_id sq)) #
     (case manufacturer_id sq of None \<Rightarrow> [] | Some m \<Rightarrow> [(''manufacturer_id=?'', PInt m)]) @
     (if str_truthy (manufacturer_pn sq) then [(''mfr LIKE ?'', PStr (the (manufacturer_pn sq)))] else []) @
     (if str_truthy (description sq) then [(''description LIKE ?'', PStr (the (description sq)))] else []) @
     (if str_truthy (package sq) then [(''package=?'', PStr (the (package sq)))] else [])"
  unfolding placeholders_eq params_eq
  by (cases "manufacturer_id sq") simp_all

lemma length_placeholders: "length (placeholder_clauses sq) = length (params sq)"
  unfolding placeholders_eq params_eq
  by (cases "manufacturer_id sq") simp_all

lemma count_where_clauses:
  "sum_list (map (\<lambda>x. count_list x (CHR ''?'')) (where_clauses sq)) = length (params sq)"
  unfolding where_clauses_eq params_eq
  by (cases "manufacturer_id sq"; cases "is_basic_parts sq"; cases "is_preferred_parts sq") simp_all

lemma count_query_text: "count_list (query_text sq) (CHR ''?'') = length (params sq)"
  by (simp add: query_text_def where_text_def select_prefix_def count_list_join count_where_clauses)

lemma query_text_shape:
  assumes "shape sq' = shape sq"
  shows "query_text sq' = query_text sq"
proof -
  have "where_clauses sq' = where_clauses sq"
    using assms unfolding where_clauses_eq shape_def
    by (cases "manufacturer_id sq"; cases "manufacturer_id sq'") simp_all
  then show ?thesis
    by (simp add: query_text_def where_text_def)
qed

lemma params_booleans:
  "params (sq\<lparr>is_basic_parts := b, is_preferred_parts := p\<rparr>) = params sq"
  by (simp add: params_eq)

lemma basic_literal:
  "is_basic_parts sq = Some v \<Longrightarrow> (''basic='' @ (if v then ''1'' else ''0'')) \<in> set (where_clauses sq)"
  unfolding where_clauses_eq by simp

lemma preferred_literal:
  "is_preferred_parts sq = Some v \<Longrightarrow> (''preferred='' @ (if v then ''1'' else ''0'')) \<in> set (where_clauses sq)"
  unfolding where_clauses_eq by simp


text \<open>
  Claim C1, as stated, fails: the text fields are tested for truth, not against \<^verbatim>\<open>None\<close>,
  so a part-number pattern that is present but empty adds no predicate. The filter below
  has one optional field present and compiles to the category predicate alone.
\<close>

theorem empty_pattern_adds_no_predicate:
  "manufacturer_pn empty_pn_query \<noteq> None
   \<and> optional_fields_present empty_pn_query = 1
   \<and> where_clauses empty_pn_query = [''category_id=?'']
   \<and> length (where_clauses empty_pn_query) \<noteq> 1 + optional_fields_present empty_pn_query"
  by (simp add: where_clauses_eq empty_pn_query_def optional_fields_present_def opt_count_def
      str_truthy_def)

text \<open>
  Claim C1 (amended): for every filter record, the WHERE clause starts with the
  \<^verbatim>\<open>category_id\<close> equality predicate and holds exactly one further predicate for
  \<^verbatim>\<open>manufacturer_id\<close> and for each tri-state field that is not \<^verbatim>\<open>None\<close>, and for each of the
  three text fields that is a non-empty string (a text field that is \<^verbatim>\<open>None\<close> or empty adds
  none). The predicates are joined with \<^verbatim>\<open>AND\<close>; the keyword \<^verbatim>\<open>OR\<close> occurs nowhere in the
  clause. Hence the number of predicates is 1 plus the number of optional fields so applied.
\<close>

theorem where_clause_predicates:
  "where_clauses sq =
     ''category_id=?'' #
     (case manufacturer_id sq of None \<Rightarrow> [] | Some m \<Rightarrow> [''manufacturer_id=?'']) @
     (if str_truthy (manufacturer_pn sq) then [''mfr LIKE ?''] else []) @
     (if str_truthy (description sq) then [''description LIKE ?''] else []) @
     (if str_truthy (package sq) then [''package=?''] else []) @
     (case is_basic_parts sq of None \<Rightarrow> [] | Some v \<Rightarrow> [''basic='' @ (if v then ''1'' else ''0'')]) @
     (case is_preferred_parts sq of None \<Rightarrow> [] | Some v \<Rightarrow> [''preferred='' @ (if v then ''1'' else ''0'')])
   \<and> length (where_clauses sq) = 1 + optional_fields_applied sq
   \<and> query_text sq = select_prefix @ join '' AND '' (where_clauses sq)
   \<and> \<not> sublist ''OR'' (where_text sq)"
proof (intro conjI)
  show "where_clauses sq =
     ''category_id=?'' #
     (case manufacturer_id sq of None \<Rightarrow> [] | Some m \<Rightarrow> [''manufacturer_id=?'']) @
     (if str_truthy (manufacturer_pn sq) then [''mfr LIKE ?''] else []) @
     (if str_truthy (description sq) then [''description LIKE ?''] else []) @
     (if str_truthy (package sq) then [''package=?''] else []) @
     (case is_basic_parts sq of None \<Rightarrow> [] | Some v \<Rightarrow> [''basic='' @ (if v then ''1'' else ''0'')]) @
     (case is_preferred_parts sq of None \<Rightarrow> [] | Some v \<Rightarrow> [''preferred='' @ (if v then ''1'' else ''0'')])"
    by (rule where_clauses_eq)
  show "length (where_clauses sq) = 1 + optional_fields_applied sq"
    by (rule length_where_clauses)
  show "query_text sq = select_prefix @ join '' AND '' (where_clauses sq)"
    by (simp only: query_text_def where_text_def)
  show "\<not> sublist ''OR'' (where_text sq)"
    by (rule no_OR_in_where_text)
qed

text \<open>Claim C1 at a filter with every field set: seven predicates.\<close>

theorem where_clause_predicates_witness:
  "where_clauses full_query =
     [''category_id=?'', ''manufacturer_id=?'', ''mfr LIKE ?'', ''description LIKE ?'', ''package=?'',
      ''basic=1'', ''preferred=0'']
   \<and> optional_fields_applied full_query = 6
   \<and> length (where_clauses full_query) = 7"
proof -
  note c1 = where_clause_predicates [of full_query]
  have 1: "where_clauses full_query =
     [''category_id=?'', ''manufacturer_id=?'', ''mfr LIKE ?'', ''description LIKE ?'', ''package=?'',
      ''basic=1'', ''preferred=0'']"
    using c1 [THEN conjunct1] by (simp add: full_query_def str_truthy_def)
  have 2: "optional_fields_applied full_query = 6"
    using c1 [THEN conjunct2, THEN conjunct1] unfolding 1 by simp
  from 1 2 show ?thesis by simp
qed
lemma params_supplied:
  assumes "manufacturer_pn sq \<noteq> Some []" "description sq \<noteq> Some []" "package sq \<noteq> Some []"
  shows "params sq = supplied_values sq"
  using assms unfolding params_eq supplied_values_def str_truthy_def
  by (cases "manufacturer_pn sq"; cases "description sq"; cases "package sq") simp_all

lemma params_subseq_text:
  "params (sq\<lparr>manufacturer_pn := Some []\<rparr>) = params (sq\<lparr>manufacturer_pn := None\<rparr>)"
  "params (sq\<lparr>description := Some []\<rparr>) = params (sq\<lparr>description := None\<rparr>)"
  "params (sq\<lparr>package := Some []\<rparr>) = params (sq\<lparr>package := None\<rparr>)"
  by (simp_all add: params_eq str_truthy_def)

lemma query_text_empty_text:
  "query_text (sq\<lparr>manufacturer_pn := Some []\<rparr>) = query_text (sq\<lparr>manufacturer_pn := None\<rparr>)"
  "query_text (sq\<lparr>description := Some []\<rparr>) = query_text (sq\<lparr>description := None\<rparr>)"
  "query_text (sq\<lparr>package := Some []\<rparr>) = query_text (sq\<lparr>package := None\<rparr>)"
  by (rule query_text_shape, simp add: shape_def str_truthy_def)+

text \<open>
  Claim C2, as stated, fails: a text value that is supplied but empty is neither bound nor
  written into the text, so there is not one placeholder per supplied value. The filter
  below supplies two values, the category 5 and an empty part-number pattern, and compiles
  to one parameter and one \<^verbatim>\<open>?\<close>.
\<close>

theorem empty_value_not_bound:
  "supplied_values empty_pn_query = [PInt 5, PStr []]
   \<and> params empty_pn_query = [PInt 5]
   \<and> count_list (query_text empty_pn_query) (CHR ''?'') = 1
   \<and> params empty_pn_query \<noteq> supplied_values empty_pn_query
   \<and> count_list (query_text empty_pn_query) (CHR ''?'') \<noteq> length (supplied_values empty_pn_query)"
proof -
  have 1: "supplied_values empty_pn_query = [PInt 5, PStr []]"
    by (simp add: supplied_values_def empty_pn_query_def)
  have 2: "params empty_pn_query = [PInt 5]"
    by (simp add: params_eq empty_pn_query_def str_truthy_def)
  have 3: "count_list (query_text empty_pn_query) (CHR ''?'') = 1"
    by (simp add: count_query_text 2)
  from 1 2 3 show ?thesis by simp
qed

text \<open>
  Claim C2 (amended): for every filter record, the parameter list is the value of
  \<^verbatim>\<open>category_id\<close>, of \<^verbatim>\<open>manufacturer_id\<close> when it is not \<^verbatim>\<open>None\<close>, and of
  \<^verbatim>\<open>manufacturer_pn\<close>, \<^verbatim>\<open>description\<close> and \<^verbatim>\<open>package\<close> when they are a non-empty string,
  in that order; the query text has one \<^verbatim>\<open>?\<close> per parameter, and the predicates with a
  placeholder pair up with the parameters in order. The query text is the same for any two
  records that differ in those values only, so no value is written into it. A tri-state
  field that is set puts the literal \<^verbatim>\<open>1\<close> or \<^verbatim>\<open>0\<close> into its predicate and leaves the
  parameter list as it is. A text field that is supplied as the empty string is dropped: it
  gives the query text and the parameters of the field left unset. When no text field is
  the empty string, the parameters are exactly the supplied values.
\<close>

theorem values_bound_not_interpolated:
  "params sq =
     PInt (category_id sq) #
     (case manufacturer_id sq of None \<Rightarrow> [] | Some m \<Rightarrow> [PInt m]) @
     (if str_truthy (manufacturer_pn sq) then [PStr (the (manufacturer_pn sq))] else []) @
     (if str_truthy (description sq) then [PStr (the (description sq))] else []) @
     (if str_truthy (package sq) then [PStr (the (package sq))] else [])
   \<and> count_list (query_text sq) (CHR ''?'') = length (params sq)
   \<and> length (placeholder_clauses sq) = length (params sq)
   \<and> zip (placeholder_clauses sq) (params sq) =
     (''category_id=?'', PInt (category_id sq)) #
     (case manufacturer_id sq of None \<Rightarrow> [] | Some m \<Rightarrow> [(''manufacturer_id=?'', PInt m)]) @
     (if str_truthy (manufacturer_pn sq) then [(''mfr LIKE ?'', PStr (the (manufacturer_pn sq)))] else []) @
     (if str_truthy (description sq) then [(''description LIKE ?'', PStr (the (description sq)))] else []) @
     (if str_truthy (package sq) then [(''package=?'', PStr (the (package sq)))] else [])
   \<and> (\<forall>sq'. shape sq' = shape sq \<longrightarrow> query_text sq' = query_text sq)
   \<and> (\<forall>v. is_basic_parts sq = Some v \<longrightarrow>
         (''basic='' @ (if v then ''1'' else ''0'')) \<in> set (where_clauses sq))
   \<and> (\<forall>v. is_preferred_parts sq = Some v \<longrightarrow>
         (''preferred='' @ (if v then ''1'' else ''0'')) \<in> set (where_clauses sq))
   \<and> (\<forall>b p. params (sq\<lparr>is_basic_parts := b, is_preferred_parts := p\<rparr>) = params sq)
   \<and> (manufacturer_pn sq \<noteq> Some [] \<and> description sq \<noteq> Some [] \<and> package sq \<noteq> Some [] \<longrightarrow>
        params sq = supplied_values sq)
   \<and> params (sq\<lparr>manufacturer_pn := Some []\<rparr>) = params (sq\<lparr>manufacturer_pn := None\<rparr>)
   \<and> params (sq\<lparr>description := Some []\<rparr>) = params (sq\<lparr>description := None\<rparr>)
   \<and> params (sq\<lparr>package := Some []\<rparr>) = params (sq\<lparr>package := None\<rparr>)
   \<and> query_text (sq\<lparr>manufacturer_pn := Some []\<rparr>) = query_text (sq\<lparr>manufacturer_pn := None\<rparr>)
   \<and> query_text (sq\<lparr>description := Some []\<rparr>) = query_text (sq\<lparr>description := None\<rparr>)
   \<and> query_text (sq\<lparr>package := Some []\<rparr>) = query_text (sq\<lparr>package := None\<rparr>)"
proof (intro conjI allI impI)
  show "params sq =
     PInt (category_id sq) #
     (case manufacturer_id sq of None \<Rightarrow> [] | Some m \<Rightarrow> [PInt m]) @
     (if str_truthy (manufacturer_pn sq) then [PStr (the (manufacturer_pn sq))] else []) @
     (if str_truthy (description sq) then [PStr (the (description sq))] else []) @
     (if str_truthy (package sq) then [PStr (the (package sq))] else [])"
    by (rule params_eq)
  show "count_list (query_text sq) (CHR ''?'') = length (params sq)"
    by (rule count_query_text)
  show "length (placeholder_clauses sq) = length (params sq)"
    by (rule length_placeholders)
  show "zip (placeholder_clauses sq) (params sq) =
     (''category_id=?'', PInt (category_id sq)) #
     (case manufacturer_id sq of None \<Rightarrow> [] | Some m \<Rightarrow> [(''manufacturer_id=?'', PInt m)]) @
     (if str_truthy (manufacturer_pn sq) then [(''mfr LIKE ?'', PStr (the (manufacturer_pn sq)))] else []) @
     (if str_truthy (description sq) then [(''description LIKE ?'', PStr (the (description sq)))] else []) @
     (if str_truthy (package sq) then [(''package=?'', PStr (the (package sq)))] else [])"
    by (rule bindings_eq)
  show "query_text sq' = query_text sq" if "shape sq' = shape sq" for sq'
    using that by (rule query_text_shape)
  show "(''basic='' @ (if v then ''1'' else ''0'')) \<in> set (where_clauses sq)"
    if "is_basic_parts sq = Some v" for v
    using that by (rule basic_literal)
  show "(''preferred='' @ (if v then ''1'' else ''0'')) \<in> set (where_clauses sq)"
    if "is_preferred_parts sq = Some v" for v
    using that by (rule preferred_literal)
  show "params (sq\<lparr>is_basic_parts := b, is_preferred_parts := p\<rparr>) = params sq" for b p
    by (rule params_booleans)
  show "params sq = supplied_values sq"
    if "manufacturer_pn sq \<noteq> Some [] \<and> description sq \<noteq> Some [] \<and> package sq \<noteq> Some []"
    using that by (simp add: params_supplied)
  show "params (sq\<lparr>manufacturer_pn := Some []\<rparr>) = params (sq\<lparr>manufacturer_pn := None\<rparr>)"
    "params (sq\<lparr>description := Some []\<rparr>) = params (sq\<lparr>description := None\<rparr>)"
    "params (sq\<lparr>package := Some []\<rparr>) = params (sq\<lparr>package := None\<rparr>)"
    by (rule params_subseq_text)+
  show "query_text (sq\<lparr>manufacturer_pn := Some []\<rparr>) = query_text (sq\<lparr>manufacturer_pn := None\<rparr>)"
    "query_text (sq\<lparr>description := Some []\<rparr>) = query_text (sq\<lparr>description := None\<rparr>)"
    "query_text (sq\<lparr>package := Some []\<rparr>) = query_text (sq\<lparr>package := None\<rparr>)"
    by (rule query_text_empty_text)+
qed

text \<open>
  Claim C2 at two filters of the same shape, one of them carrying SQL text in its
  description: same query text, five parameters, which are the five supplied values.
\<close>

theorem values_bound_not_interpolated_witness:
  "params full_query = [PInt 5, PInt 7, PStr ''RC%'', PStr ''%10k%'', PStr ''0603'']
   \<and> count_list (query_text full_query) (CHR ''?'') = 5
   \<and> shape other_query = shape full_query
   \<and> query_text other_query = query_text full_query
   \<and> ''basic=1'' \<in> set (where_clauses full_query)
   \<and> ''preferred=0'' \<in> set (where_clauses full_query)
   \<and> supplied_values full_query = [PInt 5, PInt 7, PStr ''RC%'', PStr ''%10k%'', PStr ''0603'']"
proof -
  note c2 = values_bound_not_interpolated [of full_query]
  have s: "shape other_query = shape full_query"
    by (simp add: shape_def other_query_def full_query_def str_truthy_def)
  have b: "is_basic_parts full_query = Some True" and p: "is_preferred_parts full_query = Some False"
    by (simp_all add: full_query_def)
  have 1: "params full_query = [PInt 5, PInt 7, PStr ''RC%'', PStr ''%10k%'', PStr ''0603'']"
    using c2 [THEN conjunct1] by (simp add: full_query_def str_truthy_def)
  have 2: "count_list (query_text full_query) (CHR ''?'') = 5"
    using c2 [THEN conjunct2, THEN conjunct1] unfolding 1 by simp
  have 3: "query_text other_query = query_text full_query"
    using c2 [THEN conjunct2, THEN conjunct2, THEN conjunct2, THEN conjunct2, THEN conjunct1] s
    by blast
  have 4: "''basic=1'' \<in> set (where_clauses full_query)"
    using c2 [THEN conjunct2, THEN conjunct2, THEN conjunct2, THEN conjunct2, THEN conjunct2,
      THEN conjunct1, rule_format, OF b] by simp
  have 5: "''preferred=0'' \<in> set (where_clauses full_query)"
    using c2 [THEN conjunct2, THEN conjunct2, THEN conjunct2, THEN conjunct2, THEN conjunct2,
      THEN conjunct2, THEN conjunct1, rule_format, OF p] by simp
  have n: "manufacturer_pn full_query \<noteq> Some [] \<and> description full_query \<noteq> Some []
      \<and> package full_query \<noteq> Some []"
    by (simp add: full_query_def)
  have "params full_query = supplied_values full_query"
    using c2 [THEN conjunct2, THEN conjunct2, THEN conjunct2, THEN conjunct2, THEN conjunct2,
      THEN conjunct2, THEN conjunct2, THEN conjunct2, THEN conjunct1, rule_format, OF n] .
  then have 6: "supplied_values full_query = [PInt 5, PInt 7, PStr ''RC%'', PStr ''%10k%'', PStr ''0603'']"
    using 1 by simp
  from 1 2 s 3 4 5 6 show ?thesis by (intro conjI)
qed


section \<open>The row presenter: prices and attributes\<close>

lemma bind_exn_Inl [simp]: "bind_exn (Inl e) f = Inl e"
  by (simp add: bind_exn_def)

lemma bind_exn_Inr [simp]: "bind_exn (Inr v) f = f v"
  by (simp add: bind_exn_def)

lemma map_of_dict_set: "map_of (dict_set kvs k v) k' = (if k' = k then Some v else map_of kvs k')"
  by (induction kvs) auto


lemma getitem_key_PDict:
  "getitem_key (PDict kvs) k = (case map_of kvs k of Some v \<Rightarrow> Inr v | None \<Rightarrow> Inl KeyError)"
  by (simp add: getitem_key_def)

lemma price_tier_not_dict: "\<not> is_dict p \<Longrightarrow> price_tier lib p = Inl TypeError"
  by (cases p) (simp_all add: price_tier_def getitem_key_def is_dict_def)

lemma price_tier_complete:
  assumes "map_of kvs ''qFrom'' = Some a" "map_of kvs ''qTo'' = Some b" "map_of kvs ''price'' = Some c"
  shows "price_tier lib (PDict kvs) =
     Inr (PDict (blank_bound ''qTo'' (blank_bound ''qFrom'' kvs)),
          shown_bound lib a @ ''-'' @ shown_bound lib b @ '' '' @ py_str lib c @ ''USD/pc'')"
  using assms
  by (simp add: price_tier_def getitem_key_PDict setitem_key_def blank_bound_def map_of_dict_set
      shown_bound_def py_str_def)

lemma price_tier_missing:
  assumes "map_of kvs ''qFrom'' = None \<or> map_of kvs ''qTo'' = None \<or> map_of kvs ''price'' = None"
  shows "price_tier lib (PDict kvs) = Inl KeyError"
  using assms
  by (auto simp add: price_tier_def getitem_key_PDict setitem_key_def map_of_dict_set
      split: option.split)

lemma price_tier_ok_iff: "(\<exists>r. price_tier lib p = Inr r) \<longleftrightarrow> complete_tier p"
proof (cases p)
  case (PDict kvs)
  show ?thesis
  proof (cases "map_of kvs ''qFrom'' = None \<or> map_of kvs ''qTo'' = None \<or> map_of kvs ''price'' = None")
    case True
    then show ?thesis
      using price_tier_missing [OF True, of lib] PDict by (auto simp: complete_tier_def)
  next
    case False
    then obtain a b c where "map_of kvs ''qFrom'' = Some a" "map_of kvs ''qTo'' = Some b"
      "map_of kvs ''price'' = Some c" by auto
    then show ?thesis
      using price_tier_complete [of kvs a b c lib] PDict by (simp add: complete_tier_def)
  qed
qed (simp_all add: price_tier_not_dict complete_tier_def is_dict_def)


lemma price_tier_eq:
  assumes "complete_tier p"
  shows "price_tier lib p = Inr (tier_after p, tier_shown lib p)"
proof (cases p)
  case (PDict kvs)
  with assms obtain a b c where "map_of kvs ''qFrom'' = Some a" "map_of kvs ''qTo'' = Some b"
      "map_of kvs ''price'' = Some c" by (auto simp: complete_tier_def)
  then show ?thesis
    using price_tier_complete [of kvs a b c lib] PDict
    by (simp add: tier_after_def tier_shown_def field_of_def)
qed (use assms in \<open>simp_all add: complete_tier_def\<close>)

lemma price_loop_complete:
  "list_all complete_tier ps \<Longrightarrow>
   price_loop lib ps seen price = Inr (seen @ map tier_after ps, price @ map (tier_shown lib) ps)"
  by (induction ps arbitrary: seen price) (simp_all add: price_tier_eq)

lemma price_loop_fails:
  "\<not> list_all complete_tier ps \<Longrightarrow> \<exists>e. price_loop lib ps seen price = Inl e"
proof (induction ps arbitrary: seen price)
  case Nil
  then show ?case by simp
next
  case (Cons p ps)
  show ?case
  proof (cases "complete_tier p")
    case True
    with Cons show ?thesis by (simp add: price_tier_eq)
  next
    case False
    then have "\<nexists>r. price_tier lib p = Inr r"
      using price_tier_ok_iff [of lib p] by blast
    then obtain e where "price_tier lib p = Inl e"
      by (cases "price_tier lib p") blast+
    then show ?thesis by simp
  qed
qed

















lemma json_ne:
  "price_json \<noteq> extra_json" "price_json \<noteq> odd_image_json" "price_json \<noteq> no_image_json"
  "extra_json \<noteq> odd_image_json" "extra_json \<noteq> no_image_json" "odd_image_json \<noteq> no_image_json"
  "''oops'' \<noteq> price_json" "''oops'' \<noteq> extra_json" "''oops'' \<noteq> odd_image_json"
  "''oops'' \<noteq> no_image_json" "''[]'' \<noteq> price_json" "''[]'' \<noteq> extra_json"
  "''[]'' \<noteq> odd_image_json" "''[]'' \<noteq> no_image_json"
  "''{}'' \<noteq> price_json" "''{}'' \<noteq> extra_json" "''{}'' \<noteq> odd_image_json"
  "''{}'' \<noteq> no_image_json" "''{}'' \<noteq> ''[]''"
  "wrong_type_json \<noteq> price_json" "wrong_type_json \<noteq> extra_json"
  "wrong_type_json \<noteq> odd_image_json" "wrong_type_json \<noteq> no_image_json"
  "wrong_type_json \<noteq> ''[]''" "wrong_type_json \<noteq> ''{}''" "''oops'' \<noteq> wrong_type_json"
  by (simp_all add: price_json_def extra_json_def odd_image_json_def no_image_json_def
      wrong_type_json_def)


lemma demo_decode_oops: "json_decode demo_lib ''oops'' = Inl JSONDecodeError"
  by (simp add: demo_lib_def demo_decode_def json_ne)

lemma demo_decode_empty_text: "json_decode demo_lib [] = Inl JSONDecodeError"
  by (simp add: demo_lib_def demo_decode_def price_json_def extra_json_def odd_image_json_def
      no_image_json_def wrong_type_json_def)

lemma demo_decode_empty_object: "json_decode demo_lib ''{}'' = Inr (PDict [])"
  by (simp add: demo_lib_def demo_decode_def json_ne)

lemma demo_decode_wrong_type: "json_decode demo_lib wrong_type_json = Inr (PList [wrong_type_tier])"
  by (simp add: demo_lib_def demo_decode_def json_ne)

lemma price_cell_nothing_to_iterate:
  "json_decode lib s = Inr doc \<Longrightarrow> py_iter doc = Inr [] \<Longrightarrow> price_cell lib (PStr s) = ([], [])"
  by (simp add: price_cell_def price_try_def json_loads_def)

lemma price_cell_complete:
  assumes "json_decode lib s = Inr doc" "py_iter doc = Inr ps" "list_all complete_tier ps"
  shows "price_cell lib (PStr s) = (join '', '' (map (tier_shown lib) ps), [])"
  using assms by (simp add: price_cell_def price_try_def json_loads_def price_loop_complete)

lemma wrong_type_tier_shown: "tier_shown demo_lib wrong_type_tier = ''abc-[] NoneUSD/pc''"
  by (simp add: tier_shown_def wrong_type_tier_def field_of_def shown_bound_def py_str_def)

lemma wrong_type_tier_complete: "complete_tier wrong_type_tier"
  by (simp add: complete_tier_def wrong_type_tier_def)

lemma demo_decode_empty_list: "json_decode demo_lib ''[]'' = Inr (PList [])"
  by (simp add: demo_lib_def demo_decode_def json_ne)

lemma price_cell_no_tiers: "json_decode lib s = Inr (PList []) \<Longrightarrow> price_cell lib (PStr s) = ([], [])"
  by (simp add: price_cell_def price_try_def json_loads_def py_iter_def)

lemma demo_decode_extra: "json_decode demo_lib extra_json = Inr (PDict extra_entries)"
  by (simp add: demo_lib_def demo_decode_def json_ne json_ne [symmetric])

lemma demo_decode_odd: "json_decode demo_lib odd_image_json = Inr (PDict odd_entries)"
  by (simp add: demo_lib_def demo_decode_def json_ne json_ne [symmetric])

lemma demo_decode_no_image:
  "json_decode demo_lib no_image_json = Inr (PDict [(''images'', PList [PDict []])])"
  by (simp add: demo_lib_def demo_decode_def json_ne json_ne [symmetric])



lemma price_try_fails_iff: "(\<exists>e. price_try lib field = Inl e) \<longleftrightarrow> price_unreadable lib field"
proof (cases "json_loads lib field")
  case (Inl e)
  then show ?thesis by (simp add: price_try_def price_unreadable_def)
next
  case doc: (Inr doc)
  show ?thesis
  proof (cases "py_iter doc")
    case (Inl e)
    with doc show ?thesis by (simp add: price_try_def price_unreadable_def)
  next
    case ps: (Inr ps)
    show ?thesis
    proof (cases "list_all complete_tier ps")
      case True
      with doc ps show ?thesis
        by (simp add: price_try_def price_unreadable_def price_loop_complete)
    next
      case False
      then obtain e where "price_loop lib ps [] [] = Inl e"
        using price_loop_fails by blast
      with doc ps False show ?thesis
        by (simp add: price_try_def price_unreadable_def)
    qed
  qed
qed

lemma price_cell_failed: "price_try lib field = Inl e \<Longrightarrow> price_cell lib field = (''No info'', [e])"
  by (simp add: price_cell_def)

lemma price_try_null: "price_try lib PNone = Inl TypeError"
  by (simp add: price_try_def json_loads_def)

lemma price_try_rejected: "json_decode lib s = Inl e \<Longrightarrow> price_try lib (PStr s) = Inl e"
  by (simp add: price_try_def json_loads_def)

lemma format_line_price [simp]: "format_line lib (r\<lparr>c_price := v\<rparr>) p a = format_line lib r p a"
  by (simp add: format_line_def)

lemma present_row_price:
  "fst (present_row lib (r\<lparr>c_price := v\<rparr>)) =
     format_line lib r (fst (price_cell lib v)) (fst (attr_cell lib (c_extra r)))"
  by (simp add: present_row_def Let_def)

lemma rows_loop_eq:
  "rows_loop lib rs lines log =
     (lines @ map (\<lambda>x. fst (present_row lib x)) rs, log @ concat (map (\<lambda>x. snd (present_row lib x)) rs))"
  by (induction rs arbitrary: lines log) simp_all

lemma search_parts_raises:
  assumes "fst (search_parts lib conn sq) = Inl e"
  shows "conn (query_text sq) (params sq) = Inl e
     \<or> (\<exists>c. conn (query_text sq) (params sq) = Inr c \<and> broken c = Some e)"
  using assms
  by (auto simp: search_parts_def Let_def split: sum.splits option.splits)

lemma attr_loop_eq:
  "attr_loop lib kvs chars = chars @ map (\<lambda>kv. fst kv @ '':'' @ py_str lib (snd kv)) kvs"
  by (induction kvs arbitrary: chars) simp_all

lemma py_str_scalar: "is_scalar v \<Longrightarrow> py_str lib v = scalar_text v"
  by (cases v) (simp_all add: is_scalar_def py_str_def scalar_text_def)

lemma attr_try_dict:
  assumes "json_decode lib s = Inr (PDict ents)" "map_of ents ''attributes'' = Some (PDict kvs)"
  shows "attr_try lib (PStr s) = Inr (join '', '' (map (\<lambda>kv. fst kv @ '':'' @ py_str lib (snd kv)) kvs))"
  using assms
  by (simp add: attr_try_def json_loads_def getitem_key_def py_items_def attr_loop_eq)

lemma map_scalar:
  "list_all (\<lambda>kv. is_scalar (snd kv)) kvs \<Longrightarrow>
   map (\<lambda>kv. fst kv @ '':'' @ py_str lib (snd kv)) kvs = map (\<lambda>kv. fst kv @ '':'' @ scalar_text (snd kv)) kvs"
  by (induction kvs) (simp_all add: py_str_scalar)

lemma spec_attr_example: "spec_attr_text example_attributes = ''Resistance:10k, Tolerance:1%''"
  by (simp add: spec_attr_text_def example_attributes_def scalar_text_def)

lemma scalar_example: "list_all (\<lambda>kv. is_scalar (snd kv)) example_attributes"
  by (simp add: example_attributes_def is_scalar_def)

lemma extra_attributes: "map_of extra_entries ''attributes'' = Some (PDict example_attributes)"
  by (simp add: extra_entries_def)

lemma attr_cell_demo: "attr_cell demo_lib (PStr extra_json) = (''Resistance:10k, Tolerance:1%'', [])"
proof -
  have "attr_try demo_lib (PStr extra_json) = Inr (spec_attr_text example_attributes)"
    using attr_try_dict [OF demo_decode_extra extra_attributes]
    by (simp only: spec_attr_text_def map_scalar [OF scalar_example])
  then show ?thesis
    by (simp add: attr_cell_def spec_attr_example)
qed




text \<open>
  Claim C3, as stated, fails: the code checks no type and does not look for emptiness, it
  only catches what raises. A tier whose \<^verbatim>\<open>qFrom\<close> is a string, whose \<^verbatim>\<open>qTo\<close> is a list
  and whose \<^verbatim>\<open>price\<close> is null has the wrong type in every field and is rendered as it
  is; a document with no tier in it, an empty list or an empty object, renders as the
  empty text. Neither price cell is \<^verbatim>\<open>No info\<close>.
\<close>

theorem wrong_type_or_empty_is_rendered:
  "json_decode demo_lib wrong_type_json = Inr (PList [wrong_type_tier])
   \<and> \<not> well_typed_tier wrong_type_tier
   \<and> price_cell demo_lib (PStr wrong_type_json) = (''abc-[] NoneUSD/pc'', [])
   \<and> fst (price_cell demo_lib (PStr wrong_type_json)) \<noteq> ''No info''
   \<and> json_decode demo_lib ''[]'' = Inr (PList [])
   \<and> price_cell demo_lib (PStr ''[]'') = ([], [])
   \<and> json_decode demo_lib ''{}'' = Inr (PDict [])
   \<and> price_cell demo_lib (PStr ''{}'') = ([], [])
   \<and> fst (price_cell demo_lib (PStr ''[]'')) \<noteq> ''No info''"
proof -
  have 1: "\<not> well_typed_tier wrong_type_tier"
    by (simp add: well_typed_tier_def wrong_type_tier_def is_bound_def)
  have "py_iter (PList [wrong_type_tier]) = Inr [wrong_type_tier]"
    by (simp add: py_iter_def)
  then have 2: "price_cell demo_lib (PStr wrong_type_json) = (''abc-[] NoneUSD/pc'', [])"
    using price_cell_complete [OF demo_decode_wrong_type, of "[wrong_type_tier]"]
    by (simp add: wrong_type_tier_complete wrong_type_tier_shown)
  have 3: "price_cell demo_lib (PStr ''[]'') = ([], [])"
    using price_cell_nothing_to_iterate [OF demo_decode_empty_list] by (simp add: py_iter_def)
  have 4: "price_cell demo_lib (PStr ''{}'') = ([], [])"
    using price_cell_nothing_to_iterate [OF demo_decode_empty_object] by (simp add: py_iter_def)
  from demo_decode_wrong_type 1 2 demo_decode_empty_list 3 demo_decode_empty_object 4
  show ?thesis by simp
qed

text \<open>
  Claim C3 (amended): for every row, when the first \<^verbatim>\<open>try\<close> raises on the price column
  the price cell is the text \<^verbatim>\<open>No info\<close> and the exception is printed, not raised. The
  \<^verbatim>\<open>try\<close> raises exactly when the column is unreadable: it is NULL or not text, the
  decoder rejects the text (an empty text is such a text for \<^verbatim>\<open>json.loads\<close>), the
  document cannot be iterated, or an element is not a dict or lacks one of the keys
  \<^verbatim>\<open>qFrom\<close>, \<^verbatim>\<open>qTo\<close>, \<^verbatim>\<open>price\<close>. Nothing else gives \<^verbatim>\<open>No info\<close>: a document with
  nothing to iterate renders as the empty text, and a document whose elements are dicts
  with the three keys renders each of them with whatever values it holds. Whatever the
  price column holds, the attribute cell of the row is the one computed from its
  \<^verbatim>\<open>extra\<close> column, every line is computed from its own row alone, and \<^verbatim>\<open>search_parts\<close>
  raises only what the store raises.
\<close>

theorem malformed_price_gives_no_info:
  "(\<forall>e. price_try lib (c_price r) = Inl e \<longrightarrow> price_cell lib (c_price r) = (''No info'', [e]))
   \<and> ((\<exists>e. price_try lib (c_price r) = Inl e) \<longleftrightarrow> price_unreadable lib (c_price r))
   \<and> (c_price r = PNone \<longrightarrow> price_cell lib (c_price r) = (''No info'', [TypeError]))
   \<and> (\<forall>s e. c_price r = PStr s \<and> json_decode lib s = Inl e \<longrightarrow>
         price_cell lib (c_price r) = (''No info'', [e]))
   \<and> (\<forall>v. fst (present_row lib (r\<lparr>c_price := v\<rparr>)) =
         format_line lib r (fst (price_cell lib v)) (fst (attr_cell lib (c_extra r))))
   \<and> fst (rows_loop lib rs [] []) = map (\<lambda>x. fst (present_row lib x)) rs
   \<and> (\<forall>e. fst (search_parts lib conn sq) = Inl e \<longrightarrow>
         conn (query_text sq) (params sq) = Inl e
         \<or> (\<exists>c. conn (query_text sq) (params sq) = Inr c \<and> broken c = Some e))
   \<and> (\<forall>s. json_decode lib s = Inr (PList []) \<longrightarrow> price_cell lib (PStr s) = ([], []))
   \<and> (\<forall>s doc. json_decode lib s = Inr doc \<and> py_iter doc = Inr [] \<longrightarrow>
         price_cell lib (PStr s) = ([], []))
   \<and> (\<forall>s doc ps. json_decode lib s = Inr doc \<and> py_iter doc = Inr ps \<and> list_all complete_tier ps \<longrightarrow>
         price_cell lib (PStr s) = (join '', '' (map (tier_shown lib) ps), []))"
proof (intro conjI allI impI)
  show "price_cell lib (c_price r) = (''No info'', [e])" if "price_try lib (c_price r) = Inl e" for e
    using that by (rule price_cell_failed)
  show "(\<exists>e. price_try lib (c_price r) = Inl e) \<longleftrightarrow> price_unreadable lib (c_price r)"
    by (rule price_try_fails_iff)
  show "price_cell lib (c_price r) = (''No info'', [TypeError])" if "c_price r = PNone"
    using that by (simp add: price_cell_failed price_try_null)
  show "price_cell lib (c_price r) = (''No info'', [e])"
    if "c_price r = PStr s \<and> json_decode lib s = Inl e" for s e
    using that by (simp add: price_cell_failed price_try_rejected)
  show "fst (present_row lib (r\<lparr>c_price := v\<rparr>)) =
         format_line lib r (fst (price_cell lib v)) (fst (attr_cell lib (c_extra r)))" for v
    by (rule present_row_price)
  show "fst (rows_loop lib rs [] []) = map (\<lambda>x. fst (present_row lib x)) rs"
    by (simp add: rows_loop_eq)
  show "conn (query_text sq) (params sq) = Inl e
         \<or> (\<exists>c. conn (query_text sq) (params sq) = Inr c \<and> broken c = Some e)"
    if "fst (search_parts lib conn sq) = Inl e" for e
    using that by (rule search_parts_raises)
  show "price_cell lib (PStr s) = ([], [])" if "json_decode lib s = Inr (PList [])" for s
    using that by (rule price_cell_no_tiers)
  show "price_cell lib (PStr s) = ([], [])" if "json_decode lib s = Inr doc \<and> py_iter doc = Inr []"
    for s doc
    using that price_cell_nothing_to_iterate [of lib s doc] by simp
  show "price_cell lib (PStr s) = (join '', '' (map (tier_shown lib) ps), [])"
    if "json_decode lib s = Inr doc \<and> py_iter doc = Inr ps \<and> list_all complete_tier ps" for s doc ps
    using that price_cell_complete [of lib s doc ps] by simp
qed



text \<open>
  Claim C3 at a row whose price column is the text \<^verbatim>\<open>oops\<close> and whose \<^verbatim>\<open>extra\<close> column
  is well formed, at the same row with a NULL price and with an empty price text, at a
  store that refuses the statement, at the empty list of tiers, at the empty object and at
  a tier of the wrong type.
\<close>

theorem malformed_price_gives_no_info_witness:
  "price_try demo_lib (c_price bad_price_row) = Inl JSONDecodeError
   \<and> price_cell demo_lib (c_price bad_price_row) = (''No info'', [JSONDecodeError])
   \<and> price_unreadable demo_lib (c_price bad_price_row)
   \<and> price_cell demo_lib (c_price null_price_row) = (''No info'', [TypeError])
   \<and> price_cell demo_lib (c_price empty_price_row) = (''No info'', [JSONDecodeError])
   \<and> fst (present_row demo_lib bad_price_row) =
       ''|25804|5|7|0603WAF1002T5E|1|0|10k 1% 0603|0603|100|No info|Resistance:10k, Tolerance:1%|''
   \<and> fst (search_parts demo_lib (failing_conn DatabaseError) full_query) = Inl DatabaseError
   \<and> failing_conn DatabaseError (query_text full_query) (params full_query)
       = (Inl DatabaseError :: exn + part_row cursor)
   \<and> price_cell demo_lib (PStr ''[]'') = ([], [])
   \<and> price_cell demo_lib (PStr ''{}'') = ([], [])
   \<and> price_cell demo_lib (PStr wrong_type_json) = (''abc-[] NoneUSD/pc'', [])"
proof -
  note c3 = malformed_price_gives_no_info [where lib = demo_lib and r = bad_price_row]
  note n3 = malformed_price_gives_no_info [where lib = demo_lib and r = null_price_row]
  note e3 = malformed_price_gives_no_info [where lib = demo_lib and r = empty_price_row]
  note s3 = malformed_price_gives_no_info [where lib = demo_lib and sq = full_query
      and conn = "failing_conn DatabaseError"]
  have p: "c_price bad_price_row = PStr ''oops'' \<and> json_decode demo_lib ''oops'' = Inl JSONDecodeError"
    by (simp add: bad_price_row_def demo_decode_oops)
  have c: "price_cell demo_lib (c_price bad_price_row) = (''No info'', [JSONDecodeError])"
    using c3 [THEN conjunct2, THEN conjunct2, THEN conjunct2, THEN conjunct1, rule_format, OF p] .
  have t: "price_try demo_lib (c_price bad_price_row) = Inl JSONDecodeError"
    using p by (simp add: price_try_rejected)
  have c': "price_cell demo_lib (c_price bad_price_row) = (''No info'', [JSONDecodeError])"
    using c3 [THEN conjunct1, rule_format, OF t] .
  have u: "price_unreadable demo_lib (c_price bad_price_row)"
    using c3 [THEN conjunct2, THEN conjunct1] t by blast
  have "c_price null_price_row = PNone"
    by (simp add: null_price_row_def)
  then have n: "price_cell demo_lib (c_price null_price_row) = (''No info'', [TypeError])"
    using n3 [THEN conjunct2, THEN conjunct2, THEN conjunct1] by blast
  have "c_price empty_price_row = PStr [] \<and> json_decode demo_lib [] = Inl JSONDecodeError"
    by (simp add: empty_price_row_def demo_decode_empty_text)
  then have m: "price_cell demo_lib (c_price empty_price_row) = (''No info'', [JSONDecodeError])"
    by (rule e3 [THEN conjunct2, THEN conjunct2, THEN conjunct2, THEN conjunct1, rule_format])
  have b: "bad_price_row\<lparr>c_price := PStr ''oops''\<rparr> = bad_price_row"
    by (simp add: bad_price_row_def)
  have "fst (present_row demo_lib bad_price_row) =
      format_line demo_lib bad_price_row (fst (price_cell demo_lib (PStr ''oops'')))
        (fst (attr_cell demo_lib (c_extra bad_price_row)))"
    using c3 [THEN conjunct2, THEN conjunct2, THEN conjunct2, THEN conjunct2, THEN conjunct1, rule_format, of "PStr ''oops''"] unfolding b .
  moreover have "c_extra bad_price_row = PStr extra_json"
    by (simp add: bad_price_row_def)
  ultimately have "fst (present_row demo_lib bad_price_row) =
      format_line demo_lib bad_price_row ''No info'' ''Resistance:10k, Tolerance:1%''"
    using c p by (simp add: attr_cell_demo)
  then have l: "fst (present_row demo_lib bad_price_row) =
       ''|25804|5|7|0603WAF1002T5E|1|0|10k 1% 0603|0603|100|No info|Resistance:10k, Tolerance:1%|''"
    by (simp add: format_line_def bad_price_row_def py_str_def str_int_def digits.simps)
  have f: "fst (search_parts demo_lib (failing_conn DatabaseError) full_query) = Inl DatabaseError"
    by (simp add: search_parts_def failing_conn_def)
  have g: "failing_conn DatabaseError (query_text full_query) (params full_query)
       = (Inl DatabaseError :: exn + part_row cursor)"
    using s3 [THEN conjunct2, THEN conjunct2, THEN conjunct2, THEN conjunct2, THEN conjunct2,
        THEN conjunct2, THEN conjunct1, rule_format, OF f]
    by (simp add: failing_conn_def)
  have z: "price_cell demo_lib (PStr ''[]'') = ([], [])"
    using c3 [THEN conjunct2, THEN conjunct2, THEN conjunct2, THEN conjunct2, THEN conjunct2,
        THEN conjunct2, THEN conjunct2, THEN conjunct1, rule_format, OF demo_decode_empty_list] .
  have ho: "json_decode demo_lib ''{}'' = Inr (PDict []) \<and> py_iter (PDict []) = Inr []"
    by (simp add: demo_decode_empty_object py_iter_def)
  have o: "price_cell demo_lib (PStr ''{}'') = ([], [])"
    using c3 [THEN conjunct2, THEN conjunct2, THEN conjunct2, THEN conjunct2, THEN conjunct2,
        THEN conjunct2, THEN conjunct2, THEN conjunct2, THEN conjunct1, rule_format, OF ho] .
  have hw: "json_decode demo_lib wrong_type_json = Inr (PList [wrong_type_tier])
      \<and> py_iter (PList [wrong_type_tier]) = Inr [wrong_type_tier]
      \<and> list_all complete_tier [wrong_type_tier]"
    by (simp add: demo_decode_wrong_type py_iter_def wrong_type_tier_complete)
  have w: "price_cell demo_lib (PStr wrong_type_json) = (''abc-[] NoneUSD/pc'', [])"
    using c3 [THEN conjunct2, THEN conjunct2, THEN conjunct2, THEN conjunct2, THEN conjunct2,
        THEN conjunct2, THEN conjunct2, THEN conjunct2, THEN conjunct2, rule_format, OF hw]
    by (simp add: wrong_type_tier_shown)
  from t c' u n m l f g z o w show ?thesis by (intro conjI)
qed




text \<open>
  Claim C6: for every decoded \<^verbatim>\<open>extra\<close> document whose \<^verbatim>\<open>attributes\<close> entry is a dict,
  the attribute text is one \<^verbatim>\<open>key:value\<close> entry per entry of the dict, in the order of the
  dict, joined with a comma and a space; when the values are strings and numbers the value
  is written as it is. The mapping of \<^verbatim>\<open>Resistance\<close> to \<^verbatim>\<open>10k\<close> and \<^verbatim>\<open>Tolerance\<close> to
  \<^verbatim>\<open>1%\<close> renders as \<^verbatim>\<open>Resistance:10k, Tolerance:1%\<close>.
\<close>

theorem attributes_rendered_in_order:
  "(\<forall>s ents kvs. json_decode lib s = Inr (PDict ents) \<and> map_of ents ''attributes'' = Some (PDict kvs) \<longrightarrow>
      attr_try lib (PStr s) = Inr (join '', '' (map (\<lambda>kv. fst kv @ '':'' @ py_str lib (snd kv)) kvs))
      \<and> (list_all (\<lambda>kv. is_scalar (snd kv)) kvs \<longrightarrow> attr_cell lib (PStr s) = (spec_attr_text kvs, [])))
   \<and> spec_attr_text example_attributes = ''Resistance:10k, Tolerance:1%''"
proof (intro conjI allI impI)
  fix s ents kvs
  assume a: "json_decode lib s = Inr (PDict ents) \<and> map_of ents ''attributes'' = Some (PDict kvs)"
  then show t: "attr_try lib (PStr s) = Inr (join '', '' (map (\<lambda>kv. fst kv @ '':'' @ py_str lib (snd kv)) kvs))"
    by (simp add: attr_try_dict)
  show "attr_cell lib (PStr s) = (spec_attr_text kvs, [])" if "list_all (\<lambda>kv. is_scalar (snd kv)) kvs"
  proof -
    have "attr_try lib (PStr s) = Inr (spec_attr_text kvs)"
      by (simp only: t spec_attr_text_def map_scalar [OF that])
    then show ?thesis
      by (simp add: attr_cell_def)
  qed
next
  show "spec_attr_text example_attributes = ''Resistance:10k, Tolerance:1%''"
    by (rule spec_attr_example)
qed


text \<open>Claim C6 at the example document.\<close>

theorem attributes_rendered_in_order_witness:
  "json_decode demo_lib extra_json = Inr (PDict extra_entries)
   \<and> map_of extra_entries ''attributes'' = Some (PDict example_attributes)
   \<and> list_all (\<lambda>kv. is_scalar (snd kv)) example_attributes
   \<and> attr_cell demo_lib (PStr extra_json) = (''Resistance:10k, Tolerance:1%'', [])"
proof -
  have m: "json_decode demo_lib extra_json = Inr (PDict extra_entries)
     \<and> map_of extra_entries ''attributes'' = Some (PDict example_attributes)"
    by (simp add: demo_decode_extra extra_attributes)
  from attributes_rendered_in_order [of demo_lib, THEN conjunct1, rule_format, OF m, THEN conjunct2,
      rule_format, OF scalar_example]
  show ?thesis
    by (simp add: spec_attr_example scalar_example demo_decode_extra extra_attributes)
qed


section \<open>The image selector\<close>

lemma select_url_nonempty:
  "kvs \<noteq> [] \<Longrightarrow> select_url (PDict kvs) = Inr (snd (kvs ! (length kvs div 2)))"
  by (simp add: select_url_def py_values_def py_len_def seq_index_def)

lemma select_url_empty: "select_url (PDict []) = Inl IndexError"
  by (simp add: select_url_def py_values_def py_len_def seq_index_def)

lemma select_url_three: "select_url (PDict [a, b, c]) = Inr (snd b)"
  by (simp add: select_url_nonempty)

lemma select_url_one: "select_url (PDict [a]) = Inr (snd a)"
  by (simp add: select_url_nonempty)

lemma select_url_not_dict: "\<not> is_dict images \<Longrightarrow> select_url images = Inl AttributeError"
  by (cases images) (simp_all add: select_url_def py_values_def is_dict_def)

lemma part_image_body_row:
  assumes "conn ''SELECT extra FROM components WHERE lcsc=?'' [PInt part_id] = Inr cur"
    "fetchone cur = Inr (Some r)"
  shows "part_image_body lib conn part_id =
    bind_exn (load_images lib r) (\<lambda>images. bind_exn (image_of lib images) (\<lambda>img. Inr (Some img)))"
  using assms by (simp add: part_image_body_def)

lemma image_of_url:
  assumes "select_url images = Inr (PStr u)"
  shows "image_of lib images =
     bind_exn (url_ext lib (PStr u)) (\<lambda>ext.
     bind_exn (urlopen_read lib u) (\<lambda>bytes. Inr \<lparr>data = bytes, format = normalize_ext ext\<rparr>))"
  using assms by (simp add: image_of_def fetch_url_def)

lemma url_ext_str:
  "urlparse_path lib u = Inr p \<Longrightarrow> url_ext lib (PStr u) = Inr (remove_dots (snd (splitext p)))"
  by (simp add: url_ext_def)

lemma url_ext_not_str: "(case url of PStr u \<Rightarrow> False | _ \<Rightarrow> True) \<Longrightarrow> \<exists>e. url_ext lib url = Inl e"
  by (cases url) (simp_all add: url_ext_def)

lemma get_part_image_never_raises: "fst (get_part_image lib conn part_id) \<noteq> Inl e"
  by (simp add: get_part_image_def split: sum.split)

lemma get_part_image_caught:
  "part_image_body lib conn part_id = Inl e \<Longrightarrow> get_part_image lib conn part_id = (Inr None, [e])"
  by (simp add: get_part_image_def)

lemma get_part_image_ok:
  "part_image_body lib conn part_id = Inr v \<Longrightarrow> get_part_image lib conn part_id = (Inr v, [])"
  by (simp add: get_part_image_def)

lemma rfind_dot_drop:
  assumes "c \<in> set p"
  shows "drop (nat (rfind p c)) p = c # rev (takeWhile (\<lambda>x. x \<noteq> c) (rev p))"
proof -
  let ?t = "takeWhile (\<lambda>x. x \<noteq> c) (rev p)"
  let ?d = "dropWhile (\<lambda>x. x \<noteq> c) (rev p)"
  have cr: "c \<in> set (rev p)" using assms by simp
  then have "?d \<noteq> []" by (simp add: dropWhile_eq_Nil_conv)
  moreover have "hd ?d = c" using hd_dropWhile [of "\<lambda>x. x \<noteq> c" "rev p"] \<open>?d \<noteq> []\<close> by auto
  ultimately obtain d' where d: "?d = c # d'" by (cases ?d) auto
  have "rev p = ?t @ c # d'" using takeWhile_dropWhile_id [of "\<lambda>x. x \<noteq> c" "rev p"] d by simp
  then have p: "p = rev d' @ c # rev ?t"
    by (metis rev_append rev_rev_ident rev.simps(2) append_assoc append_Cons append_Nil)
  have l: "length p = length d' + 1 + length ?t" using arg_cong [OF p, of length] by simp
  have "nat (rfind p c) = length d'" using assms l by (simp add: rfind_def)
  then show ?thesis using p by (metis append_eq_conv_conj length_rev)
qed

lemma splitext_ext_cases:
  "snd (splitext p) = [] \<or> snd (splitext p) = CHR ''.'' # rev (takeWhile (\<lambda>x. x \<noteq> CHR ''.'') (rev p))"
proof (cases "CHR ''.'' \<in> set p")
  case True
  then show ?thesis
    using rfind_dot_drop [OF True] by (simp add: splitext_def Let_def)
next
  case False
  then have "rfind p (CHR ''.'') = - 1" by (simp add: rfind_def)
  moreover have "- 1 \<le> rfind p (CHR ''/'')"
    using length_takeWhile_le [of "\<lambda>x. x \<noteq> CHR ''/''" "rev p"] by (simp add: rfind_def)
  ultimately show ?thesis by (simp add: splitext_def Let_def)
qed

lemma remove_dots_takeWhile:
  "remove_dots (rev (takeWhile (\<lambda>x. x \<noteq> CHR ''.'') xs)) = rev (takeWhile (\<lambda>x. x \<noteq> CHR ''.'') xs)"
  unfolding remove_dots_def
  by (metis (mono_tags, lifting) filter_id_conv set_rev set_takeWhileD)

lemma remove_dots_splitext:
  "snd (splitext p) = [] \<or> snd (splitext p) = CHR ''.'' # remove_dots (snd (splitext p))"
proof -
  consider "snd (splitext p) = []"
    | "snd (splitext p) = CHR ''.'' # rev (takeWhile (\<lambda>x. x \<noteq> CHR ''.'') (rev p))"
    using splitext_ext_cases by blast
  then show ?thesis
  proof cases
    case 1
    then show ?thesis by simp
  next
    case 2
    have "remove_dots (snd (splitext p)) = rev (takeWhile (\<lambda>x. x \<noteq> CHR ''.'') (rev p))"
      unfolding 2 using remove_dots_takeWhile [of "rev p"] by (simp add: remove_dots_def)
    with 2 show ?thesis by simp
  qed
qed

lemma ext_jpg: "remove_dots (snd (splitext ''/images/a_224.jpg'')) = ''jpg''"
proof -
  have 1: "rfind ''/images/a_224.jpg'' (CHR ''/'') = 7"
    by (simp add: rfind_def)
  have 2: "rfind ''/images/a_224.jpg'' (CHR ''.'') = 13"
    by (simp add: rfind_def)
  show ?thesis
    unfolding splitext_def 1 2 by (simp add: remove_dots_def)
qed

lemma ext_png: "remove_dots (snd (splitext ''/images/c.png'')) = ''png''"
proof -
  have 1: "rfind ''/images/c.png'' (CHR ''/'') = 7"
    by (simp add: rfind_def)
  have 2: "rfind ''/images/c.png'' (CHR ''.'') = 9"
    by (simp add: rfind_def)
  show ?thesis
    unfolding splitext_def 1 2 by (simp add: remove_dots_def)
qed

lemma ext_xyz: "remove_dots (snd (splitext ''/images/b.xyz'')) = ''xyz''"
proof -
  have 1: "rfind ''/images/b.xyz'' (CHR ''/'') = 7"
    by (simp add: rfind_def)
  have 2: "rfind ''/images/b.xyz'' (CHR ''.'') = 9"
    by (simp add: rfind_def)
  show ?thesis
    unfolding splitext_def 1 2 by (simp add: remove_dots_def)
qed

lemma fetchone_fixed: "fetchone (Cursor (r # rs) b) = Inr (Some r)" "fetchone (Cursor [] None) = Inr None"
  "fetchone (Cursor [] (Some e)) = Inl e"
  by (simp_all add: fetchone_def)

lemma extra_images: "map_of extra_entries ''images'' = Some (PList [PDict example_images])"
  by (simp add: extra_entries_def)

lemma load_images_demo: "load_images demo_lib (PStr extra_json) = Inr (PDict example_images)"
  by (simp add: load_images_def json_loads_def demo_decode_extra getitem_key_def extra_images
      getitem_int_def seq_index_def)

lemma load_images_none: "load_images demo_lib (PStr no_image_json) = Inr (PDict [])"
  by (simp add: load_images_def json_loads_def demo_decode_no_image getitem_key_def
      getitem_int_def seq_index_def)

lemma middle_example:
  "snd (example_images ! (length example_images div 2)) = PStr ''https://assets.lcsc.com/images/a_224.jpg''"
  by (simp add: example_images_def)

lemma demo_path_ok: "urlparse_path demo_lib (''https://assets.lcsc.com'' @ p) = Inr p"
  by (simp add: demo_lib_def demo_path_def)

lemma demo_path_224:
  "urlparse_path demo_lib ''https://assets.lcsc.com/images/a_224.jpg'' = Inr ''/images/a_224.jpg''"
  using demo_path_ok [of "''/images/a_224.jpg''"] by simp

lemma demo_path_png: "urlparse_path demo_lib ''https://assets.lcsc.com/images/c.png'' = Inr ''/images/c.png''"
  using demo_path_ok [of "''/images/c.png''"] by simp

lemma demo_path_xyz: "urlparse_path demo_lib ''https://assets.lcsc.com/images/b.xyz'' = Inr ''/images/b.xyz''"
  using demo_path_ok [of "''/images/b.xyz''"] by simp

lemma demo_path_gone:
  "urlparse_path demo_lib ''https://assets.lcsc.com/images/gone.jpg'' = Inr ''/images/gone.jpg''"
  using demo_path_ok [of "''/images/gone.jpg''"] by simp

lemma demo_path_alien: "urlparse_path demo_lib ''ftp://elsewhere/a.jpg'' = Inl ValueError"
  by (simp add: demo_lib_def demo_path_def)

lemma demo_url_ext: "url_ext demo_lib (PStr ''https://assets.lcsc.com/images/a_224.jpg'') = Inr ''jpg''"
  by (simp add: url_ext_def demo_path_224 ext_jpg)

lemma demo_fetch_224:
  "urlopen_read demo_lib ''https://assets.lcsc.com/images/a_224.jpg'' =
     Inr ''bytes of https://assets.lcsc.com/images/a_224.jpg''"
  by (simp add: demo_lib_def demo_fetch_def)

lemma demo_fetch_png:
  "urlopen_read demo_lib ''https://assets.lcsc.com/images/c.png'' =
     Inr ''bytes of https://assets.lcsc.com/images/c.png''"
  by (simp add: demo_lib_def demo_fetch_def)

lemma demo_fetch_xyz:
  "urlopen_read demo_lib ''https://assets.lcsc.com/images/b.xyz'' =
     Inr ''bytes of https://assets.lcsc.com/images/b.xyz''"
  by (simp add: demo_lib_def demo_fetch_def)

lemma demo_fetch_gone: "urlopen_read demo_lib ''https://assets.lcsc.com/images/gone.jpg'' = Inl URLError"
  by (simp add: demo_lib_def demo_fetch_def)

lemma normalize_other: "ext \<noteq> ''jpg'' \<Longrightarrow> normalize_ext ext = ext"
  by (simp add: normalize_ext_def)

lemma image_of_fetched:
  assumes "select_url images = Inr (PStr u)" "urlparse_path lib u = Inr p" "urlopen_read lib u = Inr bytes"
  shows "image_of lib images = Inr \<lparr>data = bytes, format = normalize_ext (remove_dots (snd (splitext p)))\<rparr>"
  using assms by (simp add: image_of_url url_ext_str)

lemma odd_images:
  "map_of odd_entries ''images'' = Some (PList [PDict [(''96x96'', PStr ''https://assets.lcsc.com/images/b.xyz'')]])"
  by (simp add: odd_entries_def)

lemma load_images_odd:
  "load_images demo_lib (PStr odd_image_json) = Inr (PDict [(''96x96'', PStr ''https://assets.lcsc.com/images/b.xyz'')])"
  by (simp add: load_images_def json_loads_def demo_decode_odd getitem_key_def odd_images
      getitem_int_def seq_index_def)

lemma image_of_odd:
  "image_of demo_lib (PDict [(''96x96'', PStr ''https://assets.lcsc.com/images/b.xyz'')]) =
     Inr \<lparr>data = ''bytes of https://assets.lcsc.com/images/b.xyz'', format = ''xyz''\<rparr>"
proof -
  have "select_url (PDict [(''96x96'', PStr ''https://assets.lcsc.com/images/b.xyz'')]) =
      Inr (PStr ''https://assets.lcsc.com/images/b.xyz'')"
    by (simp add: select_url_nonempty)
  then show ?thesis
    using demo_path_xyz demo_fetch_xyz
    by (simp add: image_of_fetched ext_xyz normalize_ext_def)
qed

lemma part_image_body_store:
  "conn ''SELECT extra FROM components WHERE lcsc=?'' [PInt part_id] = Inl e \<Longrightarrow>
   part_image_body lib conn part_id = Inl e"
  by (simp add: part_image_body_def)

lemma part_image_body_cursor:
  "conn ''SELECT extra FROM components WHERE lcsc=?'' [PInt part_id] = Inr cur \<Longrightarrow>
   part_image_body lib conn part_id =
     bind_exn (fetchone cur) (\<lambda>result.
       case result of
         Some r \<Rightarrow> bind_exn (load_images lib r) (\<lambda>images. bind_exn (image_of lib images) (\<lambda>img. Inr (Some img)))
       | None \<Rightarrow> Inr None)"
  by (simp add: part_image_body_def)

lemma image_of_fetch_fails:
  assumes "select_url images = Inr (PStr u)" "urlparse_path lib u = Inr p" "urlopen_read lib u = Inl e"
  shows "image_of lib images = Inl e"
  using assms by (simp add: image_of_url url_ext_str)

lemma image_of_parse_fails:
  assumes "select_url images = Inr (PStr u)" "urlparse_path lib u = Inl e"
  shows "image_of lib images = Inl e"
  using assms by (simp add: image_of_url url_ext_def)

lemma load_images_null: "load_images lib PNone = Inl TypeError"
  by (simp add: load_images_def json_loads_def)

lemma load_images_rejected: "json_decode lib s = Inl e \<Longrightarrow> load_images lib (PStr s) = Inl e"
  by (simp add: load_images_def json_loads_def)

lemma list_categories_store:
  "conn ''SELECT id,category,subcategory FROM categories'' [] = Inl e \<Longrightarrow> list_categories lib conn = Inl e"
  by (simp add: list_categories_def)

lemma list_manufacturers_store:
  "conn ''SELECT id,name FROM manufacturers'' [] = Inl e \<Longrightarrow> list_manufacturers lib conn = Inl e"
  by (simp add: list_manufacturers_def)

lemma get_category_store:
  "conn ''SELECT category,subcategory FROM categories WHERE id=?'' [PInt cid] = Inl e \<Longrightarrow>
   get_category lib conn cid = Inl e"
  by (simp add: get_category_def)

lemma get_manufacturer_store:
  "conn ''SELECT name FROM manufacturers WHERE id=?'' [PInt mid] = Inl e \<Longrightarrow> get_manufacturer conn mid = Inl e"
  by (simp add: get_manufacturer_def)

lemma search_manufacturer_store:
  "conn ''SELECT id,name FROM manufacturers WHERE name LIKE ?'' [PStr (''%'' @ name @ ''%'')] = Inl e \<Longrightarrow>
   search_manufacturer lib conn name = Inl e"
  by (simp add: search_manufacturer_def)

lemma get_datasheet_url_store:
  "conn ''SELECT datasheet FROM components WHERE lcsc=?'' [PInt part_id] = Inl e \<Longrightarrow>
   get_datasheet_url conn part_id = Inl e"
  by (simp add: get_datasheet_url_def)

lemma search_parts_store:
  "conn (query_text sq) (params sq) = Inl e \<Longrightarrow> search_parts lib conn sq = (Inl e, [])"
  by (simp add: search_parts_def)

lemma search_parts_broken:
  "conn (query_text sq) (params sq) = Inr cur \<Longrightarrow> broken cur = Some e \<Longrightarrow>
   fst (search_parts lib conn sq) = Inl e"
  by (simp add: search_parts_def Let_def)


text \<open>
  Claim C5: for every image mapping with at least one entry the selector takes the value at
  position \<^verbatim>\<open>n div 2\<close> (counting from 0) of the mapping's values: the second of three, the
  only one of one. On an empty mapping the index is out of range, and \<^verbatim>\<open>get_part_image\<close>
  returns the not-found signal. The URL so selected is the one whose extension is read and
  whose bytes are fetched.
\<close>

theorem middle_image_selected:
  "(\<forall>kvs. kvs \<noteq> [] \<longrightarrow> select_url (PDict kvs) = Inr (snd (kvs ! (length kvs div 2))))
   \<and> select_url (PDict [a, b, c]) = Inr (snd b)
   \<and> select_url (PDict [a]) = Inr (snd a)
   \<and> select_url (PDict []) = Inl IndexError
   \<and> (\<forall>cur r. conn ''SELECT extra FROM components WHERE lcsc=?'' [PInt part_id] = Inr cur
         \<and> fetchone cur = Inr (Some r) \<and> load_images lib r = Inr (PDict []) \<longrightarrow>
         get_part_image lib conn part_id = (Inr None, [IndexError]))
   \<and> (\<forall>cur r kvs u. conn ''SELECT extra FROM components WHERE lcsc=?'' [PInt part_id] = Inr cur
         \<and> fetchone cur = Inr (Some r) \<and> load_images lib r = Inr (PDict kvs) \<and> kvs \<noteq> []
         \<and> snd (kvs ! (length kvs div 2)) = PStr u \<longrightarrow>
         part_image_body lib conn part_id =
           bind_exn (url_ext lib (PStr u)) (\<lambda>ext.
           bind_exn (urlopen_read lib u) (\<lambda>bytes.
             Inr (Some \<lparr>data = bytes, format = normalize_ext ext\<rparr>))))"
proof (intro conjI allI impI)
  show "select_url (PDict kvs) = Inr (snd (kvs ! (length kvs div 2)))" if "kvs \<noteq> []" for kvs
    using that by (rule select_url_nonempty)
  show "select_url (PDict [a, b, c]) = Inr (snd b)"
    by (rule select_url_three)
  show "select_url (PDict [a]) = Inr (snd a)"
    by (rule select_url_one)
  show "select_url (PDict []) = Inl IndexError"
    by (rule select_url_empty)
  show "get_part_image lib conn part_id = (Inr None, [IndexError])"
    if "conn ''SELECT extra FROM components WHERE lcsc=?'' [PInt part_id] = Inr cur
         \<and> fetchone cur = Inr (Some r) \<and> load_images lib r = Inr (PDict [])" for cur r
  proof -
    have "part_image_body lib conn part_id = Inl IndexError"
      using that part_image_body_row [of conn part_id cur r lib]
      by (simp add: image_of_def select_url_empty)
    then show ?thesis by (rule get_part_image_caught)
  qed
  show "part_image_body lib conn part_id =
           bind_exn (url_ext lib (PStr u)) (\<lambda>ext.
           bind_exn (urlopen_read lib u) (\<lambda>bytes.
             Inr (Some \<lparr>data = bytes, format = normalize_ext ext\<rparr>)))"
    if "conn ''SELECT extra FROM components WHERE lcsc=?'' [PInt part_id] = Inr cur
         \<and> fetchone cur = Inr (Some r) \<and> load_images lib r = Inr (PDict kvs) \<and> kvs \<noteq> []
         \<and> snd (kvs ! (length kvs div 2)) = PStr u" for cur r kvs u
  proof -
    have "select_url (PDict kvs) = Inr (PStr u)"
      using that by (simp add: select_url_nonempty)
    then have "image_of lib (PDict kvs) =
        bind_exn (url_ext lib (PStr u)) (\<lambda>ext.
        bind_exn (urlopen_read lib u) (\<lambda>bytes. Inr \<lparr>data = bytes, format = normalize_ext ext\<rparr>))"
      by (rule image_of_url)
    then show ?thesis
      using that part_image_body_row [of conn part_id cur r lib]
      by (simp add: bind_exn_def split: sum.split)
  qed
qed

text \<open>Claim C5 at a part with three images, and at a part with an empty mapping.\<close>

theorem middle_image_selected_witness:
  "load_images demo_lib (PStr extra_json) = Inr (PDict example_images)
   \<and> length example_images = 3
   \<and> select_url (PDict example_images) = Inr (PStr ''https://assets.lcsc.com/images/a_224.jpg'')
   \<and> part_image_body demo_lib (fixed_conn [PStr extra_json]) 25804 =
       Inr (Some \<lparr>data = ''bytes of https://assets.lcsc.com/images/a_224.jpg'', format = ''jpeg''\<rparr>)
   \<and> get_part_image demo_lib (fixed_conn [PStr no_image_json]) 25804 = (Inr None, [IndexError])"
proof -
  note t = middle_image_selected [where conn = "fixed_conn [PStr extra_json]" and part_id = 25804
      and lib = demo_lib]
  note t' = middle_image_selected [where conn = "fixed_conn [PStr no_image_json]" and part_id = 25804
      and lib = demo_lib]
  have 3: "length example_images = 3"
    by (simp add: example_images_def)
  then have ne: "example_images \<noteq> []"
    by auto
  have s: "select_url (PDict example_images) = Inr (PStr ''https://assets.lcsc.com/images/a_224.jpg'')"
    using t [THEN conjunct1, rule_format, OF ne] by (simp add: middle_example)
  have h: "fixed_conn [PStr extra_json] ''SELECT extra FROM components WHERE lcsc=?'' [PInt 25804]
      = Inr (Cursor [PStr extra_json] None)
    \<and> fetchone (Cursor [PStr extra_json] None) = Inr (Some (PStr extra_json))
    \<and> load_images demo_lib (PStr extra_json) = Inr (PDict example_images) \<and> example_images \<noteq> []
    \<and> snd (example_images ! (length example_images div 2)) = PStr ''https://assets.lcsc.com/images/a_224.jpg''"
    using ne by (simp add: fixed_conn_def fetchone_fixed load_images_demo middle_example)
  have h': "fixed_conn [PStr no_image_json] ''SELECT extra FROM components WHERE lcsc=?'' [PInt 25804]
      = Inr (Cursor [PStr no_image_json] None)
    \<and> fetchone (Cursor [PStr no_image_json] None) = Inr (Some (PStr no_image_json))
    \<and> load_images demo_lib (PStr no_image_json) = Inr (PDict [])"
    by (simp add: fixed_conn_def fetchone_fixed load_images_none)
  have 1: "part_image_body demo_lib (fixed_conn [PStr extra_json]) 25804 =
       Inr (Some \<lparr>data = ''bytes of https://assets.lcsc.com/images/a_224.jpg'', format = ''jpeg''\<rparr>)"
    using t [THEN conjunct2, THEN conjunct2, THEN conjunct2, THEN conjunct2, THEN conjunct2, rule_format, OF h]
    by (simp add: demo_url_ext demo_fetch_224 normalize_ext_def)
  have 2: "get_part_image demo_lib (fixed_conn [PStr no_image_json]) 25804 = (Inr None, [IndexError])"
    using t' [THEN conjunct2, THEN conjunct2, THEN conjunct2, THEN conjunct2, THEN conjunct1, rule_format, OF h'] .
  from load_images_demo 3 s 1 2 show ?thesis by (intro conjI)
qed

text \<open>
  Claim C8: for every selected URL, the format tag is the extension of the URL's path (what
  \<^verbatim>\<open>splitext\<close> splits off, without its leading dot) with \<^verbatim>\<open>jpg\<close> replaced by \<^verbatim>\<open>jpeg\<close> and
  every other extension, \<^verbatim>\<open>png\<close> for one, left as it is.
\<close>

theorem format_tag_from_extension:
  "(\<forall>u p. urlparse_path lib u = Inr p \<longrightarrow> url_ext lib (PStr u) = Inr (remove_dots (snd (splitext p))))
   \<and> (snd (splitext p) = [] \<or> snd (splitext p) = CHR ''.'' # remove_dots (snd (splitext p)))
   \<and> (\<forall>images u p bytes. select_url images = Inr (PStr u) \<and> urlparse_path lib u = Inr p
         \<and> urlopen_read lib u = Inr bytes \<longrightarrow>
         image_of lib images = Inr \<lparr>data = bytes, format = normalize_ext (remove_dots (snd (splitext p)))\<rparr>)
   \<and> normalize_ext ''jpg'' = ''jpeg''
   \<and> normalize_ext ''png'' = ''png''
   \<and> (\<forall>ext. ext \<noteq> ''jpg'' \<longrightarrow> normalize_ext ext = ext)"
proof (intro conjI allI impI)
  show "url_ext lib (PStr u) = Inr (remove_dots (snd (splitext p)))" if "urlparse_path lib u = Inr p" for u p
    using that by (rule url_ext_str)
  show "snd (splitext p) = [] \<or> snd (splitext p) = CHR ''.'' # remove_dots (snd (splitext p))"
    by (rule remove_dots_splitext)
  show "image_of lib images = Inr \<lparr>data = bytes, format = normalize_ext (remove_dots (snd (splitext p)))\<rparr>"
    if "select_url images = Inr (PStr u) \<and> urlparse_path lib u = Inr p \<and> urlopen_read lib u = Inr bytes"
    for images u p bytes
    using that by (simp add: image_of_fetched)
  show "normalize_ext ''jpg'' = ''jpeg''" "normalize_ext ''png'' = ''png''"
    by (simp_all add: normalize_ext_def)
  show "normalize_ext ext = ext" if "ext \<noteq> ''jpg''" for ext
    using that by (rule normalize_other)
qed

text \<open>Claim C8 at a \<^verbatim>\<open>jpg\<close> URL and at a \<^verbatim>\<open>png\<close> URL.\<close>

theorem format_tag_from_extension_witness:
  "urlparse_path demo_lib ''https://assets.lcsc.com/images/a_224.jpg'' = Inr ''/images/a_224.jpg''
   \<and> url_ext demo_lib (PStr ''https://assets.lcsc.com/images/a_224.jpg'') = Inr ''jpg''
   \<and> image_of demo_lib (PDict example_images) =
       Inr \<lparr>data = ''bytes of https://assets.lcsc.com/images/a_224.jpg'', format = ''jpeg''\<rparr>
   \<and> ''png'' \<noteq> ''jpg''
   \<and> image_of demo_lib (PDict png_images) =
       Inr \<lparr>data = ''bytes of https://assets.lcsc.com/images/c.png'', format = ''png''\<rparr>"
proof -
  note t = format_tag_from_extension [of demo_lib]
  have e: "url_ext demo_lib (PStr ''https://assets.lcsc.com/images/a_224.jpg'') = Inr ''jpg''"
    using t [THEN conjunct1, rule_format, OF demo_path_224] by (simp add: ext_jpg)
  have h: "select_url (PDict example_images) = Inr (PStr ''https://assets.lcsc.com/images/a_224.jpg'')
     \<and> urlparse_path demo_lib ''https://assets.lcsc.com/images/a_224.jpg'' = Inr ''/images/a_224.jpg''
     \<and> urlopen_read demo_lib ''https://assets.lcsc.com/images/a_224.jpg'' =
         Inr ''bytes of https://assets.lcsc.com/images/a_224.jpg''"
    by (simp add: demo_path_224 demo_fetch_224 select_url_nonempty example_images_def)
  have i: "image_of demo_lib (PDict example_images) =
       Inr \<lparr>data = ''bytes of https://assets.lcsc.com/images/a_224.jpg'', format = ''jpeg''\<rparr>"
    using t [THEN conjunct2, THEN conjunct2, THEN conjunct1, rule_format, OF h] t [THEN conjunct2, THEN conjunct2, THEN conjunct2, THEN conjunct1]
    by (simp add: ext_jpg)
  have d: "''png'' \<noteq> ''jpg''"
    by simp
  have n: "normalize_ext ''png'' = ''png''"
    using t [THEN conjunct2, THEN conjunct2, THEN conjunct2, THEN conjunct2, THEN conjunct2, rule_format, OF d] .
  have h': "select_url (PDict png_images) = Inr (PStr ''https://assets.lcsc.com/images/c.png'')
     \<and> urlparse_path demo_lib ''https://assets.lcsc.com/images/c.png'' = Inr ''/images/c.png''
     \<and> urlopen_read demo_lib ''https://assets.lcsc.com/images/c.png'' =
         Inr ''bytes of https://assets.lcsc.com/images/c.png''"
    by (simp add: demo_path_png demo_fetch_png select_url_nonempty png_images_def)
  have i': "image_of demo_lib (PDict png_images) =
       Inr \<lparr>data = ''bytes of https://assets.lcsc.com/images/c.png'', format = ''png''\<rparr>"
    using t [THEN conjunct2, THEN conjunct2, THEN conjunct1, rule_format, OF h'] n
    by (simp add: ext_png)
  from demo_path_224 e i d i' show ?thesis by (intro conjI)
qed

text \<open>
  Claim C7, as stated, fails: the code never tests the extension against a list of known
  formats. A URL whose path ends in \<^verbatim>\<open>.xyz\<close> gives an image tagged \<^verbatim>\<open>xyz\<close>, not the
  not-found signal.
\<close>

theorem unknown_extension_not_rejected:
  "get_part_image demo_lib (fixed_conn [PStr odd_image_json]) 1 =
     (Inr (Some \<lparr>data = ''bytes of https://assets.lcsc.com/images/b.xyz'', format = ''xyz''\<rparr>), [])
   \<and> fst (get_part_image demo_lib (fixed_conn [PStr odd_image_json]) 1) \<noteq> Inr None"
proof -
  have "part_image_body demo_lib (fixed_conn [PStr odd_image_json]) 1 =
      Inr (Some \<lparr>data = ''bytes of https://assets.lcsc.com/images/b.xyz'', format = ''xyz''\<rparr>)"
    by (simp add: part_image_body_def fixed_conn_def fetchone_fixed load_images_odd image_of_odd)
  then show ?thesis
    by (simp add: get_part_image_def)
qed

text \<open>
  Claim C7 (amended): \<^verbatim>\<open>get_part_image\<close> never raises. Every exception raised in its
  chain is printed and turned into the not-found signal: a failure of the store or of its
  cursor, a NULL or undecodable \<^verbatim>\<open>extra\<close> column (and whatever else makes the images
  unreadable), an empty mapping, a URL that cannot be parsed, a fetch error. An absent row
  gives the not-found signal with nothing printed. The extension is not checked: when the
  chain succeeds the image is returned with whatever extension the path has as its tag
  (\<^verbatim>\<open>jpg\<close> as \<^verbatim>\<open>jpeg\<close>). In the seven other operations a failure of the store is raised
  to the caller.
\<close>

theorem image_failures_caught:
  "(\<forall>e. fst (get_part_image lib conn part_id) \<noteq> Inl e)
   \<and> (\<forall>e. part_image_body lib conn part_id = Inl e \<longrightarrow> get_part_image lib conn part_id = (Inr None, [e]))
   \<and> (\<forall>e. conn ''SELECT extra FROM components WHERE lcsc=?'' [PInt part_id] = Inl e \<longrightarrow>
         get_part_image lib conn part_id = (Inr None, [e]))
   \<and> (\<forall>cur e. conn ''SELECT extra FROM components WHERE lcsc=?'' [PInt part_id] = Inr cur
         \<and> fetchone cur = Inl e \<longrightarrow> get_part_image lib conn part_id = (Inr None, [e]))
   \<and> (\<forall>cur. conn ''SELECT extra FROM components WHERE lcsc=?'' [PInt part_id] = Inr cur
         \<and> fetchone cur = Inr None \<longrightarrow> get_part_image lib conn part_id = (Inr None, []))
   \<and> (\<forall>cur r e. conn ''SELECT extra FROM components WHERE lcsc=?'' [PInt part_id] = Inr cur
         \<and> fetchone cur = Inr (Some r) \<and> load_images lib r = Inl e \<longrightarrow>
         get_part_image lib conn part_id = (Inr None, [e]))
   \<and> (\<forall>cur r images e. conn ''SELECT extra FROM components WHERE lcsc=?'' [PInt part_id] = Inr cur
         \<and> fetchone cur = Inr (Some r) \<and> load_images lib r = Inr images \<and> image_of lib images = Inl e \<longrightarrow>
         get_part_image lib conn part_id = (Inr None, [e]))
   \<and> (\<forall>cur r images img. conn ''SELECT extra FROM components WHERE lcsc=?'' [PInt part_id] = Inr cur
         \<and> fetchone cur = Inr (Some r) \<and> load_images lib r = Inr images \<and> image_of lib images = Inr img \<longrightarrow>
         get_part_image lib conn part_id = (Inr (Some img), []))
   \<and> load_images lib PNone = Inl TypeError
   \<and> (\<forall>s e. json_decode lib s = Inl e \<longrightarrow> load_images lib (PStr s) = Inl e)
   \<and> image_of lib (PDict []) = Inl IndexError
   \<and> (\<forall>images u e. select_url images = Inr (PStr u) \<and> urlparse_path lib u = Inl e \<longrightarrow>
         image_of lib images = Inl e)
   \<and> (\<forall>images u p e. select_url images = Inr (PStr u) \<and> urlparse_path lib u = Inr p
         \<and> urlopen_read lib u = Inl e \<longrightarrow> image_of lib images = Inl e)
   \<and> (\<forall>images u p bytes. select_url images = Inr (PStr u) \<and> urlparse_path lib u = Inr p
         \<and> urlopen_read lib u = Inr bytes \<longrightarrow>
         image_of lib images = Inr \<lparr>data = bytes, format = normalize_ext (remove_dots (snd (splitext p)))\<rparr>)
   \<and> (\<forall>e. conn_cat ''SELECT id,category,subcategory FROM categories'' [] = Inl e \<longrightarrow>
         list_categories lib conn_cat = Inl e)
   \<and> (\<forall>e. conn_pair ''SELECT id,name FROM manufacturers'' [] = Inl e \<longrightarrow>
         list_manufacturers lib conn_pair = Inl e)
   \<and> (\<forall>e. conn_pair ''SELECT category,subcategory FROM categories WHERE id=?'' [PInt cid] = Inl e \<longrightarrow>
         get_category lib conn_pair cid = Inl e)
   \<and> (\<forall>e. conn ''SELECT name FROM manufacturers WHERE id=?'' [PInt mid] = Inl e \<longrightarrow>
         get_manufacturer conn mid = Inl e)
   \<and> (\<forall>e. conn_pair ''SELECT id,name FROM manufacturers WHERE name LIKE ?'' [PStr (''%'' @ name @ ''%'')] = Inl e \<longrightarrow>
         search_manufacturer lib conn_pair name = Inl e)
   \<and> (\<forall>e. conn ''SELECT datasheet FROM components WHERE lcsc=?'' [PInt part_id] = Inl e \<longrightarrow>
         get_datasheet_url conn part_id = Inl e)
   \<and> (\<forall>e. conn_parts (query_text sq) (params sq) = Inl e \<longrightarrow> search_parts lib conn_parts sq = (Inl e, []))
   \<and> (\<forall>cur e. conn_parts (query_text sq) (params sq) = Inr cur \<and> broken cur = Some e \<longrightarrow>
         fst (search_parts lib conn_parts sq) = Inl e)"
proof (intro conjI allI impI)
  show "fst (get_part_image lib conn part_id) \<noteq> Inl e" for e
    by (rule get_part_image_never_raises)
  show "get_part_image lib conn part_id = (Inr None, [e])" if "part_image_body lib conn part_id = Inl e" for e
    using that by (rule get_part_image_caught)
  show "get_part_image lib conn part_id = (Inr None, [e])"
    if "conn ''SELECT extra FROM components WHERE lcsc=?'' [PInt part_id] = Inl e" for e
    using that by (simp add: get_part_image_caught part_image_body_store)
  show "get_part_image lib conn part_id = (Inr None, [e])"
    if "conn ''SELECT extra FROM components WHERE lcsc=?'' [PInt part_id] = Inr cur \<and> fetchone cur = Inl e"
    for cur e
    using that by (simp add: get_part_image_caught part_image_body_cursor)
  show "get_part_image lib conn part_id = (Inr None, [])"
    if "conn ''SELECT extra FROM components WHERE lcsc=?'' [PInt part_id] = Inr cur \<and> fetchone cur = Inr None"
    for cur
    using that by (simp add: get_part_image_ok part_image_body_cursor)
  show "get_part_image lib conn part_id = (Inr None, [e])"
    if "conn ''SELECT extra FROM components WHERE lcsc=?'' [PInt part_id] = Inr cur
         \<and> fetchone cur = Inr (Some r) \<and> load_images lib r = Inl e" for cur r e
    using that by (simp add: get_part_image_caught part_image_body_cursor)
  show "get_part_image lib conn part_id = (Inr None, [e])"
    if "conn ''SELECT extra FROM components WHERE lcsc=?'' [PInt part_id] = Inr cur
         \<and> fetchone cur = Inr (Some r) \<and> load_images lib r = Inr images \<and> image_of lib images = Inl e"
    for cur r images e
    using that by (simp add: get_part_image_caught part_image_body_cursor)
  show "get_part_image lib conn part_id = (Inr (Some img), [])"
    if "conn ''SELECT extra FROM components WHERE lcsc=?'' [PInt part_id] = Inr cur
         \<and> fetchone cur = Inr (Some r) \<and> load_images lib r = Inr images \<and> image_of lib images = Inr img"
    for cur r images img
    using that by (simp add: get_part_image_ok part_image_body_cursor)
  show "load_images lib PNone = Inl TypeError"
    by (rule load_images_null)
  show "load_images lib (PStr s) = Inl e" if "json_decode lib s = Inl e" for s e
    using that by (rule load_images_rejected)
  show "image_of lib (PDict []) = Inl IndexError"
    by (simp add: image_of_def select_url_empty)
  show "image_of lib images = Inl e"
    if "select_url images = Inr (PStr u) \<and> urlparse_path lib u = Inl e" for images u e
    using that by (simp add: image_of_parse_fails)
  show "image_of lib images = Inl e"
    if "select_url images = Inr (PStr u) \<and> urlparse_path lib u = Inr p \<and> urlopen_read lib u = Inl e"
    for images u p e
    using that image_of_fetch_fails [of images u lib p e] by simp
  show "image_of lib images = Inr \<lparr>data = bytes, format = normalize_ext (remove_dots (snd (splitext p)))\<rparr>"
    if "select_url images = Inr (PStr u) \<and> urlparse_path lib u = Inr p \<and> urlopen_read lib u = Inr bytes"
    for images u p bytes
    using that by (simp add: image_of_fetched)
  show "list_categories lib conn_cat = Inl e"
    if "conn_cat ''SELECT id,category,subcategory FROM categories'' [] = Inl e" for e
    using that by (rule list_categories_store)
  show "list_manufacturers lib conn_pair = Inl e" if "conn_pair ''SELECT id,name FROM manufacturers'' [] = Inl e" for e
    using that by (rule list_manufacturers_store)
  show "get_category lib conn_pair cid = Inl e"
    if "conn_pair ''SELECT category,subcategory FROM categories WHERE id=?'' [PInt cid] = Inl e" for e
    using that by (rule get_category_store)
  show "get_manufacturer conn mid = Inl e"
    if "conn ''SELECT name FROM manufacturers WHERE id=?'' [PInt mid] = Inl e" for e
    using that by (rule get_manufacturer_store)
  show "search_manufacturer lib conn_pair name = Inl e"
    if "conn_pair ''SELECT id,name FROM manufacturers WHERE name LIKE ?'' [PStr (''%'' @ name @ ''%'')] = Inl e" for e
    using that by (rule search_manufacturer_store)
  show "get_datasheet_url conn part_id = Inl e"
    if "conn ''SELECT datasheet FROM components WHERE lcsc=?'' [PInt part_id] = Inl e" for e
    using that by (rule get_datasheet_url_store)
  show "search_parts lib conn_parts sq = (Inl e, [])" if "conn_parts (query_text sq) (params sq) = Inl e" for e
    using that by (rule search_parts_store)
  show "fst (search_parts lib conn_parts sq) = Inl e"
    if "conn_parts (query_text sq) (params sq) = Inr cur \<and> broken cur = Some e" for cur e
    using that by (simp add: search_parts_broken)
qed


text \<open>
  Claim C7 at stores that refuse the statement, break before the first row, hold no row,
  hold a row that is not JSON, a row with an empty mapping and a well-formed row; at a URL
  that cannot be parsed and at one that cannot be fetched; and at the other operations on a
  store that refuses or breaks.
\<close>

theorem image_failures_caught_witness:
  "part_image_body demo_lib (failing_conn DatabaseError) 1 = Inl DatabaseError
   \<and> get_part_image demo_lib (failing_conn DatabaseError) 1 = (Inr None, [DatabaseError])
   \<and> get_part_image demo_lib (breaking_conn [] DatabaseError) 1 = (Inr None, [DatabaseError])
   \<and> get_part_image demo_lib (fixed_conn []) 1 = (Inr None, [])
   \<and> get_part_image demo_lib (fixed_conn [PStr ''oops'']) 1 = (Inr None, [JSONDecodeError])
   \<and> get_part_image demo_lib (fixed_conn [PStr no_image_json]) 1 = (Inr None, [IndexError])
   \<and> get_part_image demo_lib (fixed_conn [PStr extra_json]) 1 =
       (Inr (Some \<lparr>data = ''bytes of https://assets.lcsc.com/images/a_224.jpg'', format = ''jpeg''\<rparr>), [])
   \<and> image_of demo_lib (PDict alien_images) = Inl ValueError
   \<and> image_of demo_lib (PDict gone_images) = Inl URLError
   \<and> list_categories demo_lib (failing_conn DatabaseError) = Inl DatabaseError
   \<and> list_manufacturers demo_lib (failing_conn DatabaseError) = Inl DatabaseError
   \<and> get_category demo_lib (failing_conn DatabaseError) 1 = Inl DatabaseError
   \<and> get_manufacturer (failing_conn DatabaseError) 1 = Inl DatabaseError
   \<and> search_manufacturer demo_lib (failing_conn DatabaseError) ''Yageo'' = Inl DatabaseError
   \<and> get_datasheet_url (failing_conn DatabaseError) 1 = Inl DatabaseError
   \<and> search_parts demo_lib (failing_conn DatabaseError) full_query = (Inl DatabaseError, [])
   \<and> fst (search_parts demo_lib (breaking_conn [bad_price_row] DatabaseError) full_query) = Inl DatabaseError"
proof -
  note t = image_failures_caught [where lib = demo_lib and part_id = 1 and cid = 1 and mid = 1
      and name = "''Yageo''" and sq = full_query]
  note f = t [where conn = "failing_conn DatabaseError" and conn_cat = "failing_conn DatabaseError"
      and conn_pair = "failing_conn DatabaseError" and conn_parts = "failing_conn DatabaseError"]
  note b = t [where conn = "breaking_conn [] DatabaseError"
      and conn_parts = "breaking_conn [bad_price_row] DatabaseError"]
  note n = t [where conn = "fixed_conn []"]
  note o = t [where conn = "fixed_conn [PStr ''oops'']"]
  note m = t [where conn = "fixed_conn [PStr no_image_json]"]
  note g = t [where conn = "fixed_conn [PStr extra_json]"]
  have 0: "part_image_body demo_lib (failing_conn DatabaseError) 1 = Inl DatabaseError"
    by (simp add: part_image_body_def failing_conn_def)
  have 1: "get_part_image demo_lib (failing_conn DatabaseError) 1 = (Inr None, [DatabaseError])"
    using f [THEN conjunct2, THEN conjunct1, rule_format, OF 0] .
  have s: "get_part_image demo_lib (failing_conn DatabaseError) 1 = (Inr None, [DatabaseError])"
    using f [THEN conjunct2, THEN conjunct2, THEN conjunct1, rule_format, of DatabaseError] by (simp add: failing_conn_def)
  have hb: "breaking_conn [] DatabaseError ''SELECT extra FROM components WHERE lcsc=?'' [PInt 1]
       = Inr (Cursor [] (Some DatabaseError))
     \<and> fetchone (Cursor [] (Some DatabaseError) :: pyval cursor) = Inl DatabaseError"
    by (simp add: breaking_conn_def fetchone_fixed)
  have 2: "get_part_image demo_lib (breaking_conn [] DatabaseError) 1 = (Inr None, [DatabaseError])"
    using b [THEN conjunct2, THEN conjunct2, THEN conjunct2, THEN conjunct1, rule_format, OF hb] .
  have hn: "fixed_conn [] ''SELECT extra FROM components WHERE lcsc=?'' [PInt 1] = Inr (Cursor [] None)
     \<and> fetchone (Cursor [] None :: pyval cursor) = Inr None"
    by (simp add: fixed_conn_def fetchone_fixed)
  have 3: "get_part_image demo_lib (fixed_conn []) 1 = (Inr None, [])"
    using n [THEN conjunct2, THEN conjunct2, THEN conjunct2, THEN conjunct2, THEN conjunct1, rule_format, OF hn] .
  have lo: "load_images demo_lib (PStr ''oops'') = Inl JSONDecodeError"
    using o [THEN conjunct2, THEN conjunct2, THEN conjunct2, THEN conjunct2, THEN conjunct2, THEN conjunct2, THEN conjunct2, THEN conjunct2, THEN conjunct2, THEN conjunct1, rule_format, OF demo_decode_oops] .
  have ho: "fixed_conn [PStr ''oops''] ''SELECT extra FROM components WHERE lcsc=?'' [PInt 1]
       = Inr (Cursor [PStr ''oops''] None)
     \<and> fetchone (Cursor [PStr ''oops''] None) = Inr (Some (PStr ''oops''))
     \<and> load_images demo_lib (PStr ''oops'') = Inl JSONDecodeError"
    using lo by (simp add: fixed_conn_def fetchone_fixed)
  have 4: "get_part_image demo_lib (fixed_conn [PStr ''oops'']) 1 = (Inr None, [JSONDecodeError])"
    using o [THEN conjunct2, THEN conjunct2, THEN conjunct2, THEN conjunct2, THEN conjunct2, THEN conjunct1, rule_format, OF ho] .
  have hm: "fixed_conn [PStr no_image_json] ''SELECT extra FROM components WHERE lcsc=?'' [PInt 1]
       = Inr (Cursor [PStr no_image_json] None)
     \<and> fetchone (Cursor [PStr no_image_json] None) = Inr (Some (PStr no_image_json))
     \<and> load_images demo_lib (PStr no_image_json) = Inr (PDict [])
     \<and> image_of demo_lib (PDict []) = Inl IndexError"
    using m [THEN conjunct2, THEN conjunct2, THEN conjunct2, THEN conjunct2, THEN conjunct2, THEN conjunct2, THEN conjunct2, THEN conjunct2, THEN conjunct2, THEN conjunct2, THEN conjunct1] by (simp add: fixed_conn_def fetchone_fixed load_images_none)
  have 5: "get_part_image demo_lib (fixed_conn [PStr no_image_json]) 1 = (Inr None, [IndexError])"
    using m [THEN conjunct2, THEN conjunct2, THEN conjunct2, THEN conjunct2, THEN conjunct2, THEN conjunct2, THEN conjunct1, rule_format, OF hm] .
  have su: "select_url (PDict example_images) = Inr (PStr ''https://assets.lcsc.com/images/a_224.jpg'')
     \<and> urlparse_path demo_lib ''https://assets.lcsc.com/images/a_224.jpg'' = Inr ''/images/a_224.jpg''
     \<and> urlopen_read demo_lib ''https://assets.lcsc.com/images/a_224.jpg'' =
         Inr ''bytes of https://assets.lcsc.com/images/a_224.jpg''"
    by (simp add: demo_path_224 demo_fetch_224 select_url_nonempty example_images_def)
  have io: "image_of demo_lib (PDict example_images) =
       Inr \<lparr>data = ''bytes of https://assets.lcsc.com/images/a_224.jpg'', format = ''jpeg''\<rparr>"
    using g [THEN conjunct2, THEN conjunct2, THEN conjunct2, THEN conjunct2, THEN conjunct2, THEN conjunct2, THEN conjunct2, THEN conjunct2, THEN conjunct2, THEN conjunct2, THEN conjunct2, THEN conjunct2, THEN conjunct2, THEN conjunct1, rule_format, OF su] by (simp add: ext_jpg normalize_ext_def)
  have hg: "fixed_conn [PStr extra_json] ''SELECT extra FROM components WHERE lcsc=?'' [PInt 1]
       = Inr (Cursor [PStr extra_json] None)
     \<and> fetchone (Cursor [PStr extra_json] None) = Inr (Some (PStr extra_json))
     \<and> load_images demo_lib (PStr extra_json) = Inr (PDict example_images)
     \<and> image_of demo_lib (PDict example_images) =
         Inr \<lparr>data = ''bytes of https://assets.lcsc.com/images/a_224.jpg'', format = ''jpeg''\<rparr>"
    using io by (simp add: fixed_conn_def fetchone_fixed load_images_demo)
  have 6: "get_part_image demo_lib (fixed_conn [PStr extra_json]) 1 =
       (Inr (Some \<lparr>data = ''bytes of https://assets.lcsc.com/images/a_224.jpg'', format = ''jpeg''\<rparr>), [])"
    using g [THEN conjunct2, THEN conjunct2, THEN conjunct2, THEN conjunct2, THEN conjunct2, THEN conjunct2, THEN conjunct2, THEN conjunct1, rule_format, OF hg] .
  have ha: "select_url (PDict alien_images) = Inr (PStr ''ftp://elsewhere/a.jpg'')
     \<and> urlparse_path demo_lib ''ftp://elsewhere/a.jpg'' = Inl ValueError"
    by (simp add: demo_path_alien select_url_nonempty alien_images_def)
  have 7: "image_of demo_lib (PDict alien_images) = Inl ValueError"
    using t [THEN conjunct2, THEN conjunct2, THEN conjunct2, THEN conjunct2, THEN conjunct2, THEN conjunct2, THEN conjunct2, THEN conjunct2, THEN conjunct2, THEN conjunct2, THEN conjunct2, THEN conjunct1, rule_format, OF ha] .
  have hq: "select_url (PDict gone_images) = Inr (PStr ''https://assets.lcsc.com/images/gone.jpg'')
     \<and> urlparse_path demo_lib ''https://assets.lcsc.com/images/gone.jpg'' = Inr ''/images/gone.jpg''
     \<and> urlopen_read demo_lib ''https://assets.lcsc.com/images/gone.jpg'' = Inl URLError"
    by (simp add: demo_path_gone demo_fetch_gone select_url_nonempty gone_images_def)
  have 8: "image_of demo_lib (PDict gone_images) = Inl URLError"
    using t [THEN conjunct2, THEN conjunct2, THEN conjunct2, THEN conjunct2, THEN conjunct2, THEN conjunct2, THEN conjunct2, THEN conjunct2, THEN conjunct2, THEN conjunct2, THEN conjunct2, THEN conjunct2, THEN conjunct1, rule_format, OF hq] .
  have 9: "list_categories demo_lib (failing_conn DatabaseError) = Inl DatabaseError"
    using f [THEN conjunct2, THEN conjunct2, THEN conjunct2, THEN conjunct2, THEN conjunct2, THEN conjunct2, THEN conjunct2, THEN conjunct2, THEN conjunct2, THEN conjunct2, THEN conjunct2, THEN conjunct2, THEN conjunct2, THEN conjunct2, THEN conjunct1, rule_format, of DatabaseError] by (simp add: failing_conn_def)
  have 10: "list_manufacturers demo_lib (failing_conn DatabaseError) = Inl DatabaseError"
    using f [THEN conjunct2, THEN conjunct2, THEN conjunct2, THEN conjunct2, THEN conjunct2, THEN conjunct2, THEN conjunct2, THEN conjunct2, THEN conjunct2, THEN conjunct2, THEN conjunct2, THEN conjunct2, THEN conjunct2, THEN conjunct2, THEN conjunct2, THEN conjunct1, rule_format, of DatabaseError] by (simp add: failing_conn_def)
  have 11: "get_category demo_lib (failing_conn DatabaseError) 1 = Inl DatabaseError"
    using f [THEN conjunct2, THEN conjunct2, THEN conjunct2, THEN conjunct2, THEN conjunct2, THEN conjunct2, THEN conjunct2, THEN conjunct2, THEN conjunct2, THEN conjunct2, THEN conjunct2, THEN conjunct2, THEN conjunct2, THEN conjunct2, THEN conjunct2, THEN conjunct2, THEN conjunct1, rule_format, of DatabaseError] by (simp add: failing_conn_def)
  have 12: "get_manufacturer (failing_conn DatabaseError) 1 = Inl DatabaseError"
    using f [THEN conjunct2, THEN conjunct2, THEN conjunct2, THEN conjunct2, THEN conjunct2, THEN conjunct2, THEN conjunct2, THEN conjunct2, THEN conjunct2, THEN conjunct2, THEN conjunct2, THEN conjunct2, THEN conjunct2, THEN conjunct2, THEN conjunct2, THEN conjunct2, THEN conjunct2, THEN conjunct1, rule_format, of DatabaseError] by (simp add: failing_conn_def)
  have 13: "search_manufacturer demo_lib (failing_conn DatabaseError) ''Yageo'' = Inl DatabaseError"
    using f [THEN conjunct2, THEN conjunct2, THEN conjunct2, THEN conjunct2, THEN conjunct2, THEN conjunct2, THEN conjunct2, THEN conjunct2, THEN conjunct2, THEN conjunct2, THEN conjunct2, THEN conjunct2, THEN conjunct2, THEN conjunct2, THEN conjunct2, THEN conjunct2, THEN conjunct2, THEN conjunct2, THEN conjunct1, rule_format, of DatabaseError] by (simp add: failing_conn_def)
  have 14: "get_datasheet_url (failing_conn DatabaseError) 1 = Inl DatabaseError"
    using f [THEN conjunct2, THEN conjunct2, THEN conjunct2, THEN conjunct2, THEN conjunct2, THEN conjunct2, THEN conjunct2, THEN conjunct2, THEN conjunct2, THEN conjunct2, THEN conjunct2, THEN conjunct2, THEN conjunct2, THEN conjunct2, THEN conjunct2, THEN conjunct2, THEN conjunct2, THEN conjunct2, THEN conjunct2, THEN conjunct1, rule_format, of DatabaseError] by (simp add: failing_conn_def)
  have 15: "search_parts demo_lib (failing_conn DatabaseError) full_query = (Inl DatabaseError, [])"
    using f [THEN conjunct2, THEN conjunct2, THEN conjunct2, THEN conjunct2, THEN conjunct2, THEN conjunct2, THEN conjunct2, THEN conjunct2, THEN conjunct2, THEN conjunct2, THEN conjunct2, THEN conjunct2, THEN conjunct2, THEN conjunct2, THEN conjunct2, THEN conjunct2, THEN conjunct2, THEN conjunct2, THEN conjunct2, THEN conjunct2, THEN conjunct1, rule_format, of DatabaseError] by (simp add: failing_conn_def)
  have hs: "breaking_conn [bad_price_row] DatabaseError (query_text full_query) (params full_query)
       = Inr (Cursor [bad_price_row] (Some DatabaseError))
     \<and> broken (Cursor [bad_price_row] (Some DatabaseError)) = Some DatabaseError"
    by (simp add: breaking_conn_def)
  have 16: "fst (search_parts demo_lib (breaking_conn [bad_price_row] DatabaseError) full_query)
       = Inl DatabaseError"
    using b [THEN conjunct2, THEN conjunct2, THEN conjunct2, THEN conjunct2, THEN conjunct2, THEN conjunct2, THEN conjunct2, THEN conjunct2, THEN conjunct2, THEN conjunct2, THEN conjunct2, THEN conjunct2, THEN conjunct2, THEN conjunct2, THEN conjunct2, THEN conjunct2, THEN conjunct2, THEN conjunct2, THEN conjunct2, THEN conjunct2, THEN conjunct2, rule_format, OF hs] .
  from 0 1 2 3 4 5 6 7 8 9 10 11 12 13 14 15 16 show ?thesis by (intro conjI)
qed


section \<open>What the operations return\<close>









text \<open>
  Claim C10: \<^verbatim>\<open>get_datasheet_url\<close> returns \<^verbatim>\<open>None\<close> when no row matches the part, and
  also when the first matching row has a NULL datasheet; the two results are equal. A row
  with a URL gives the URL.
\<close>

theorem datasheet_absent_or_null:
  "(conn ''SELECT datasheet FROM components WHERE lcsc=?'' [PInt part_id] = Inr (Cursor [] None) \<longrightarrow>
      get_datasheet_url conn part_id = Inr PNone)
   \<and> (\<forall>rest b. conn ''SELECT datasheet FROM components WHERE lcsc=?'' [PInt part_id]
          = Inr (Cursor (PNone # rest) b) \<longrightarrow> get_datasheet_url conn part_id = Inr PNone)
   \<and> (\<forall>u rest b. conn ''SELECT datasheet FROM components WHERE lcsc=?'' [PInt part_id]
          = Inr (Cursor (PStr u # rest) b) \<longrightarrow> get_datasheet_url conn part_id = Inr (PStr u))
   \<and> (\<forall>conn' rest b. conn ''SELECT datasheet FROM components WHERE lcsc=?'' [PInt part_id] = Inr (Cursor [] None)
         \<and> conn' ''SELECT datasheet FROM components WHERE lcsc=?'' [PInt part_id] = Inr (Cursor (PNone # rest) b)
         \<longrightarrow> get_datasheet_url conn part_id = get_datasheet_url conn' part_id)"
  by (simp add: get_datasheet_url_def fetchone_def)

text \<open>Claim C10 at a store with no row, with a NULL datasheet, and with a URL.\<close>

theorem datasheet_absent_or_null_witness:
  "get_datasheet_url (fixed_conn []) 25804 = Inr PNone
   \<and> get_datasheet_url (fixed_conn [PNone]) 25804 = Inr PNone
   \<and> get_datasheet_url (fixed_conn []) 25804 = get_datasheet_url (fixed_conn [PNone]) 25804
   \<and> get_datasheet_url (fixed_conn [PStr ''https://datasheet.lcsc.com/a.pdf'']) 25804 =
       Inr (PStr ''https://datasheet.lcsc.com/a.pdf'')"
proof -
  note a = datasheet_absent_or_null [where conn = "fixed_conn []" and part_id = 25804]
  note n = datasheet_absent_or_null [where conn = "fixed_conn [PNone]" and part_id = 25804]
  note u = datasheet_absent_or_null [where conn = "fixed_conn [PStr ''https://datasheet.lcsc.com/a.pdf'']"
      and part_id = 25804]
  have 1: "get_datasheet_url (fixed_conn []) 25804 = Inr PNone"
    using a [THEN conjunct1] by (simp add: fixed_conn_def)
  have 2: "get_datasheet_url (fixed_conn [PNone]) 25804 = Inr PNone"
    using n [THEN conjunct2, THEN conjunct1, rule_format, of "[]" None] by (simp add: fixed_conn_def)
  have h: "fixed_conn [] ''SELECT datasheet FROM components WHERE lcsc=?'' [PInt 25804]
       = (Inr (Cursor [] None) :: exn + pyval cursor)
     \<and> fixed_conn [PNone] ''SELECT datasheet FROM components WHERE lcsc=?'' [PInt 25804]
       = Inr (Cursor (PNone # []) None)"
    by (simp add: fixed_conn_def)
  have 3: "get_datasheet_url (fixed_conn []) 25804 = get_datasheet_url (fixed_conn [PNone]) 25804"
    using a [THEN conjunct2, THEN conjunct2, THEN conjunct2, rule_format,
        of "fixed_conn [PNone]" "[]" None, OF h] .
  have 4: "get_datasheet_url (fixed_conn [PStr ''https://datasheet.lcsc.com/a.pdf'']) 25804 =
       Inr (PStr ''https://datasheet.lcsc.com/a.pdf'')"
    using u [THEN conjunct2, THEN conjunct2, THEN conjunct1, rule_format,
        of "''https://datasheet.lcsc.com/a.pdf''" "[]" None]
    by (simp add: fixed_conn_def)
  from 1 2 3 4 show ?thesis by (intro conjI)
qed


end
